theory Spec2Isabelle
  imports Complex_Main
begin

section \<open>Customer health scoring and recovery playbooks\<close>

text \<open>
  A shallow embedding of \<^verbatim>\<open>health_scoring_system.py\<close>. Conventions of the model:
  \<^item> Python numbers (\<^verbatim>\<open>int\<close> and \<^verbatim>\<open>float\<close>) are exact reals; the rounding of
    IEEE doubles is not modelled.
  \<^item> A dictionary is an association list in insertion order; storing under an
    existing key replaces the entry in place, storing under a new key appends.
  \<^item> Objects are values: a function that mutates an object returns the new value and
    the engine writes it back under the key the object was found at.
  \<^item> \<^verbatim>\<open>datetime.now()\<close> is an input: a clock reading holding the instant and its
    \<^verbatim>\<open>strftime('%Y%m%d')\<close> rendering. One reading serves a whole engine call.
  \<^item> Calls of \<^verbatim>\<open>logger\<close> append a structured entry to a log kept with the engine; text
    built with f-strings is kept as a constructor with the formatted values as arguments.
  \<^item> A raised exception is the \<open>Inl\<close> branch of a sum.
\<close>

subsection \<open>Enumerations\<close>

datatype HealthTier = HEALTHY | AT_RISK | CRITICAL | RED_ALERT

datatype PlaybookType =
  POST_INCIDENT_RECOVERY | ENGAGEMENT_REVIVAL | VALUE_ACCELERATION | CHURN_PREVENTION
  | TRUST_REBUILDING

datatype ActionStatus = PENDING | IN_PROGRESS | COMPLETED | SKIPPED

datatype py_error =
  CustomerNotFound string
  | PlaybookNotFound string
  | ActionNotFound string string
  | ZeroDivisionError

text \<open>The three \<^verbatim>\<open>ValueError("... not found")\<close> exceptions of the engine.\<close>

fun is_not_found :: "py_error \<Rightarrow> bool" where
  "is_not_found (CustomerNotFound c) = True"
| "is_not_found (PlaybookNotFound p) = True"
| "is_not_found (ActionNotFound a p) = True"
| "is_not_found ZeroDivisionError = False"

subsection \<open>Values, dictionaries, time\<close>

text \<open>A value of a \<^verbatim>\<open>Dict[str, Any]\<close> of metrics: a boolean, a number or a string.\<close>

datatype pyval = PyBool bool | PyNum real | PyStr string

text \<open>A signal is numeric or boolean; a boolean counts as 0 or 1 in arithmetic.\<close>

datatype signal = Num real | Flag bool

fun num :: "signal \<Rightarrow> real" where
  "num (Num x) = x"
| "num (Flag b) = (if b then 1 else 0)"

fun truthy :: "signal \<Rightarrow> bool" where
  "truthy (Num x) = (x \<noteq> 0)"
| "truthy (Flag b) = b"

type_synonym SignalBag = "string \<Rightarrow> signal option"

text \<open>\<^verbatim>\<open>customer_data.get(key, default)\<close> read as a number, and read for its truth.\<close>

definition get_num :: "SignalBag \<Rightarrow> string \<Rightarrow> real \<Rightarrow> real" where
  "get_num customer_data k d = (case customer_data k of None \<Rightarrow> d | Some v \<Rightarrow> num v)"

definition get_truthy :: "SignalBag \<Rightarrow> string \<Rightarrow> bool \<Rightarrow> bool" where
  "get_truthy customer_data k d = (case customer_data k of None \<Rightarrow> d | Some v \<Rightarrow> truthy v)"

fun dict_set :: "'k \<Rightarrow> 'v \<Rightarrow> ('k \<times> 'v) list \<Rightarrow> ('k \<times> 'v) list" where
  "dict_set k v [] = [(k, v)]"
| "dict_set k v (p # ps) = (if fst p = k then (k, v) # ps else p # dict_set k v ps)"

text \<open>\<^verbatim>\<open>d.update(other)\<close>: existing keys overwritten, new keys added.\<close>

fun dict_update :: "('k \<times> 'v) list \<Rightarrow> ('k \<times> 'v) list \<Rightarrow> ('k \<times> 'v) list" where
  "dict_update d [] = d"
| "dict_update d (p # ps) = dict_update (dict_set (fst p) (snd p) d) ps"

type_synonym datetime = int

text \<open>\<^verbatim>\<open>timedelta(days=d, weeks=w)\<close> in microseconds.\<close>

definition timedelta :: "int \<Rightarrow> int \<Rightarrow> int" where
  "timedelta d w = (d + 7 * w) * 86400000000"

record clock =
  now :: datetime
  today :: string

subsection \<open>Data model\<close>

record HealthMetrics =
  engagement_score :: real
  value_realization_score :: real
  relationship_health_score :: real
  risk_indicators_score :: real
  calculated_at :: datetime

definition calculate_composite_score :: "HealthMetrics \<Rightarrow> real" where
  "calculate_composite_score self =
     (let risk_contribution = (100 - risk_indicators_score self) * 0.10;
          composite =
            engagement_score self * 0.35 +
            value_realization_score self * 0.30 +
            relationship_health_score self * 0.25 +
            risk_contribution
      in min 100 (max 0 composite))"

definition get_health_tier :: "HealthMetrics \<Rightarrow> HealthTier" where
  "get_health_tier self =
     (let score = calculate_composite_score self
      in if score \<ge> 80 then HEALTHY
         else if score \<ge> 60 then AT_RISK
         else if score \<ge> 40 then CRITICAL
         else RED_ALERT)"

record CustomerProfile =
  customer_id :: string
  name :: string
  segment :: string
  contract_value :: real
  start_date :: datetime
  renewal_date :: datetime
  industry :: string
  primary_contact :: "(string \<times> string) list"
  success_manager :: string
  incident_impact_level :: string
  current_health :: "HealthMetrics option"
  health_history :: "HealthMetrics list"
  is_post_incident :: bool
  last_engagement :: "datetime option"
  trust_rebuilding_required :: bool
  executive_escalation_required :: bool

record PlaybookAction =
  action_id :: string
  title :: string
  description :: string
  assigned_to :: string
  due_date :: datetime
  priority :: string
  estimated_effort_hours :: int
  dependencies :: "string list"
  status :: ActionStatus
  completion_date :: "datetime option"
  outcome_notes :: string
  success_metrics :: "(string \<times> pyval) list"

text \<open>
  \<open>outcome_summary\<close> is either the empty string or
  \<^verbatim>\<open>f"Health score improved by {improvement:.1f} points"\<close>, kept with its number.
\<close>

datatype summary = NoSummary | ImprovedBy real

text \<open>
  Two fields of the playbook share their names with fields of other classes and carry
  the prefix \<open>pb_\<close> here: \<^verbatim>\<open>customer_id\<close> and \<^verbatim>\<open>status\<close>.
\<close>

record RecoveryPlaybook =
  playbook_id :: string
  playbook_type :: PlaybookType
  pb_customer_id :: string
  triggered_by :: string
  triggered_at :: datetime
  target_completion_date :: datetime
  objectives :: "string list"
  success_criteria :: "(string \<times> pyval) list"
  actions :: "PlaybookAction list"
  pb_status :: string
  completion_percentage :: real
  assigned_csm :: string
  executive_sponsor :: "string option"
  baseline_health_score :: "real option"
  current_health_score :: "real option"
  outcome_summary :: summary

subsection \<open>HealthScoreCalculator\<close>

definition calculate_engagement_score :: "SignalBag \<Rightarrow> real" where
  "calculate_engagement_score customer_data =
     (let login_frequency = get_num customer_data ''logins_per_week'' 0;
          login_score = min 30 ((login_frequency / 5) * 30);
          features_used = get_num customer_data ''features_used'' 0;
          total_features = get_num customer_data ''total_available_features'' 10;
          adoption_rate = (if total_features > 0 then features_used / total_features else 0);
          adoption_score = adoption_rate * 25;
          support_satisfaction = get_num customer_data ''support_satisfaction'' 3.0;
          support_score = ((support_satisfaction - 1) / 4) * 20;
          office_hours_attendance = get_num customer_data ''office_hours_attendance_rate'' 0;
          help_usage = get_num customer_data ''help_articles_viewed'' 0;
          help_score = min 10 ((help_usage / 10) * 10);
          score = 0.0 + login_score + adoption_score + support_score
                  + office_hours_attendance * 15 + help_score
      in min 100.0 score)"

text \<open>
  The division by \<^verbatim>\<open>target_days\<close> has no guard in the source: a zero there raises
  \<^verbatim>\<open>ZeroDivisionError\<close>. The other two divisions by a signal are guarded.
\<close>

definition calculate_value_realization_score :: "SignalBag \<Rightarrow> py_error + real" where
  "calculate_value_realization_score customer_data =
     (let goals_achieved = get_num customer_data ''goals_achieved'' 0;
          total_goals = get_num customer_data ''total_goals_set'' 1;
          goal_rate = (if total_goals > 0 then goals_achieved / total_goals else 0);
          actual_roi = get_num customer_data ''measured_roi'' 0;
          expected_roi = get_num customer_data ''expected_roi'' 1;
          roi_achievement = (if expected_roi > 0 then min 1.0 (actual_roi / expected_roi) else 0);
          outcomes_tracked = get_num customer_data ''business_outcomes_achieved'' 0;
          days_to_first_value = get_num customer_data ''days_to_first_value'' 365;
          target_days = get_num customer_data ''target_days_to_value'' 30
      in if target_days = 0 then Inl ZeroDivisionError
         else
           (let time_score =
                  max 0 (10 - ((days_to_first_value - target_days) / target_days) * 10);
                score = 0.0 + goal_rate * 40 + roi_achievement * 30
                        + min 20 (outcomes_tracked * 5) + max 0 time_score
            in Inr (min 100.0 score)))"

definition calculate_relationship_health_score :: "SignalBag \<Rightarrow> real" where
  "calculate_relationship_health_score customer_data =
     (let nps_score = get_num customer_data ''nps_score'' 0;
          csat_score = get_num customer_data ''csat_score'' 3.0;
          nps_normalized = (nps_score + 100) / 2;
          nps_contribution = (nps_normalized / 100) * 20;
          csat_normalized = ((csat_score - 1) / 4) * 100;
          csat_contribution = (csat_normalized / 100) * 15;
          trust_score = get_num customer_data ''trust_index'' 5.0;
          trust_contribution = ((trust_score - 1) / 9) * 25;
          stakeholder_engagement = get_num customer_data ''stakeholder_engagement_rate'' 0.5;
          response_time_hours = get_num customer_data ''avg_response_time_hours'' 48;
          target_response_hours = 24;
          responsiveness =
            max 0 (1 - ((response_time_hours - target_response_hours) / target_response_hours));
          score = 0.0 + (nps_contribution + csat_contribution) + trust_contribution
                  + stakeholder_engagement * 25 + responsiveness * 15
      in min 100.0 score)"

definition calculate_risk_indicators_score :: "SignalBag \<Rightarrow> real" where
  "calculate_risk_indicators_score customer_data =
     (let contract_risk_level = get_num customer_data ''contract_risk_level'' 0;
          payment_delays = get_num customer_data ''payment_delays_count'' 0;
          payment_risk = min 1.0 (payment_delays / 3);
          competitive_activity = get_truthy customer_data ''competitive_evaluation'' False;
          usage_trend = get_num customer_data ''usage_trend_30d'' 0;
          escalations = get_num customer_data ''support_escalations_30d'' 0;
          escalation_risk = min 1.0 (escalations / 3);
          key_contact_turnover = get_num customer_data ''key_contact_changes_90d'' 0;
          turnover_risk = min 1.0 (key_contact_turnover / 2);
          score = 0.0 + (contract_risk_level / 5) * 25 + payment_risk * 20
                  + (if competitive_activity then 20 else 0)
                  + (if usage_trend < - 0.2 then 15 else if usage_trend < - 0.1 then 10 else 0)
                  + escalation_risk * 10 + turnover_risk * 10
      in min 100.0 score)"

text \<open>
  The multipliers are the entries of \<^verbatim>\<open>weight_adjustments\<close>, a table fixed by the
  constructor: 1.5 and 1.3 after an incident, 1.2 and 1.1 for the enterprise segment.
\<close>

definition calculate_health_metrics ::
  "clock \<Rightarrow> 'a CustomerProfile_scheme \<Rightarrow> SignalBag \<Rightarrow> py_error + HealthMetrics" where
  "calculate_health_metrics clk customer customer_data =
     (let engagement = calculate_engagement_score customer_data
      in case calculate_value_realization_score customer_data of
           Inl e \<Rightarrow> Inl e
         | Inr value_realization \<Rightarrow>
             (let relationship = calculate_relationship_health_score customer_data;
                  risk_indicators = calculate_risk_indicators_score customer_data;
                  relationship1 =
                    (if is_post_incident customer then relationship * 1.5 else relationship);
                  risk_indicators1 =
                    (if is_post_incident customer then risk_indicators * 1.3 else risk_indicators);
                  value_realization1 =
                    (if segment customer = ''enterprise'' then value_realization * 1.2
                     else value_realization);
                  relationship2 =
                    (if segment customer = ''enterprise'' then relationship1 * 1.1
                     else relationship1)
              in Inr \<lparr> engagement_score = min 100 engagement,
                       value_realization_score = min 100 value_realization1,
                       relationship_health_score = min 100 relationship2,
                       risk_indicators_score = min 100 risk_indicators1,
                       calculated_at = now clk \<rparr>))"

subsection \<open>PlaybookLibrary\<close>

text \<open>A \<^verbatim>\<open>PlaybookAction\<close> as the templates construct it: the other fields at their defaults.\<close>

definition new_action ::
  "string \<Rightarrow> string \<Rightarrow> string \<Rightarrow> string \<Rightarrow> datetime \<Rightarrow> string \<Rightarrow> int \<Rightarrow> (string \<times> pyval) list
     \<Rightarrow> PlaybookAction" where
  "new_action aid ttl descr assignee due prio effort metrics =
     \<lparr> action_id = aid, title = ttl, description = descr, assigned_to = assignee,
       due_date = due, priority = prio, estimated_effort_hours = effort,
       dependencies = [], status = PENDING, completion_date = None,
       outcome_notes = [], success_metrics = metrics \<rparr>"

definition create_post_incident_recovery_playbook ::
  "clock \<Rightarrow> 'a CustomerProfile_scheme \<Rightarrow> RecoveryPlaybook" where
  "create_post_incident_recovery_playbook clk customer =
     \<lparr> playbook_id = ''PIR-'' @ customer_id customer @ ''-'' @ today clk,
       playbook_type = POST_INCIDENT_RECOVERY,
       pb_customer_id = customer_id customer,
       triggered_by = ''incident_impact'',
       triggered_at = now clk,
       target_completion_date = now clk + timedelta 30 0,
       objectives =
         [''Restore customer trust and confidence'',
          ''Demonstrate commitment to reliability'',
          ''Strengthen relationship through transparency'',
          ''Prevent customer churn'',
          ''Position for future expansion''],
       success_criteria =
         [(''trust_score_target'', PyNum 7.0),
          (''health_score_target'', PyNum 75.0),
          (''renewal_probability_target'', PyNum 0.85),
          (''nps_improvement_target'', PyNum 20)],
       actions =
         [new_action ''pir_001'' ''Executive Apology Call''
            ''Schedule and conduct executive-level apology call with customer leadership''
            ''executive-team@company.com'' (now clk + timedelta 2 0) ''high'' 2
            [(''call_completed'', PyBool False), (''trust_score_impact'', PyNum 0)],
          new_action ''pir_002'' ''Detailed Incident Post-Mortem Sharing''
            ''Share comprehensive post-mortem with customer including prevention measures''
            (success_manager customer) (now clk + timedelta 5 0) ''high'' 4
            [(''post_mortem_shared'', PyBool False),
             (''customer_feedback_received'', PyBool False)],
          new_action ''pir_003'' ''Trust Rebuilding Sessions''
            ''Conduct weekly trust rebuilding sessions with customer stakeholders''
            (success_manager customer) (now clk + timedelta 0 4) ''medium'' 16
            [(''sessions_completed'', PyNum 0), (''trust_score_improvement'', PyNum 0)],
          new_action ''pir_004'' ''Enhanced Monitoring Setup''
            ''Implement customer-specific monitoring and alerting''
            ''engineering-team@company.com'' (now clk + timedelta 7 0) ''high'' 8
            [(''monitoring_implemented'', PyBool False),
             (''customer_dashboard_access'', PyBool False)],
          new_action ''pir_005'' ''Value Recovery Demonstration''
            ''Demonstrate renewed value delivery through success metrics review''
            (success_manager customer) (now clk + timedelta 14 0) ''medium'' 6
            [(''value_demonstration_completed'', PyBool False),
             (''roi_improvement_shown'', PyBool False)]],
       pb_status = ''active'',
       completion_percentage = 0.0,
       assigned_csm = success_manager customer,
       executive_sponsor = None,
       baseline_health_score = None,
       current_health_score = None,
       outcome_summary = NoSummary \<rparr>"

definition create_engagement_revival_playbook ::
  "clock \<Rightarrow> 'a CustomerProfile_scheme \<Rightarrow> RecoveryPlaybook" where
  "create_engagement_revival_playbook clk customer =
     \<lparr> playbook_id = ''ER-'' @ customer_id customer @ ''-'' @ today clk,
       playbook_type = ENGAGEMENT_REVIVAL,
       pb_customer_id = customer_id customer,
       triggered_by = ''low_engagement_score'',
       triggered_at = now clk,
       target_completion_date = now clk + timedelta 28 0,
       objectives =
         [''Increase product engagement and adoption'',
          ''Improve user experience and satisfaction'',
          ''Develop internal champions'',
          ''Optimize workflow integration''],
       success_criteria =
         [(''engagement_score_target'', PyNum 80.0),
          (''login_frequency_target'', PyNum 5.0),
          (''feature_adoption_target'', PyNum 0.7)],
       actions =
         [new_action ''er_001'' ''Usage Pattern Analysis''
            ''Analyze customer usage patterns to identify engagement barriers''
            (success_manager customer) (now clk + timedelta 3 0) ''high'' 4
            [(''analysis_completed'', PyBool False), (''barriers_identified'', PyNum 0)],
          new_action ''er_002'' ''Personalized Training Program''
            ''Design and deliver personalized training based on usage gaps''
            ''training-team@company.com'' (now clk + timedelta 10 0) ''high'' 12
            [(''training_sessions_delivered'', PyNum 0),
             (''feature_adoption_increase'', PyNum 0)],
          new_action ''er_003'' ''Champion Identification Program''
            ''Identify and develop internal champions within customer organization''
            (success_manager customer) (now clk + timedelta 14 0) ''medium'' 8
            [(''champions_identified'', PyNum 0),
             (''champion_training_completed'', PyBool False)],
          new_action ''er_004'' ''Integration Optimization''
            ''Optimize existing integrations and identify new integration opportunities''
            ''technical-team@company.com'' (now clk + timedelta 21 0) ''medium'' 16
            [(''integrations_optimized'', PyNum 0),
             (''new_integrations_implemented'', PyNum 0)]],
       pb_status = ''active'',
       completion_percentage = 0.0,
       assigned_csm = success_manager customer,
       executive_sponsor = None,
       baseline_health_score = None,
       current_health_score = None,
       outcome_summary = NoSummary \<rparr>"

subsection \<open>CustomerSuccessEngine\<close>

datatype log_level = INFO | WARNING

datatype log_message =
  AddedCustomer string string
  | UpdatedHealth string real HealthTier
  | SignificantHealthDrop string real real
  | PlaybookNotImplemented PlaybookType
  | TriggeredPlaybook PlaybookType string string
  | ExecutiveEscalationRequired string string
  | PlaybookAssigned string string
  | UpdatedAction string string ActionStatus
  | SignificantImprovement string real
  | ModestImprovement string real
  | NoImprovement string real
  | CompletedPlaybook string string

text \<open>
  The engine's two registries and the log. The table \<^verbatim>\<open>self.triggers\<close> of the
  constructor is never read by the source and is left out; the calculator and the
  playbook library hold no state.
\<close>

record CustomerSuccessEngine =
  customers :: "(string \<times> CustomerProfile) list"
  active_playbooks :: "(string \<times> RecoveryPlaybook) list"
  logged :: "(log_level \<times> log_message) list"

definition engine_init :: CustomerSuccessEngine where
  "engine_init = \<lparr> customers = [], active_playbooks = [], logged = [] \<rparr>"

definition logger :: "log_level \<Rightarrow> log_message \<Rightarrow> CustomerSuccessEngine \<Rightarrow> CustomerSuccessEngine" where
  "logger lvl msg self = self\<lparr> logged := logged self @ [(lvl, msg)] \<rparr>"

definition add_customer :: "CustomerProfile \<Rightarrow> CustomerSuccessEngine \<Rightarrow> CustomerSuccessEngine" where
  "add_customer customer self =
     logger INFO (AddedCustomer (name customer) (customer_id customer))
       (self\<lparr> customers := dict_set (customer_id customer) customer (customers self) \<rparr>)"

definition has_active_playbook ::
  "CustomerSuccessEngine \<Rightarrow> string \<Rightarrow> PlaybookType \<Rightarrow> bool" where
  "has_active_playbook self cid ptype =
     list_ex (\<lambda>pb. pb_customer_id pb = cid \<and> playbook_type pb = ptype \<and> pb_status pb = ''active'')
       (map snd (active_playbooks self))"

definition notify_playbook_assignment ::
  "RecoveryPlaybook \<Rightarrow> CustomerSuccessEngine \<Rightarrow> CustomerSuccessEngine" where
  "notify_playbook_assignment playbook self =
     logger INFO (PlaybookAssigned (playbook_id playbook) (assigned_csm playbook)) self"

definition trigger_playbook ::
  "clock \<Rightarrow> CustomerProfile \<Rightarrow> PlaybookType \<Rightarrow> CustomerSuccessEngine \<Rightarrow> CustomerSuccessEngine" where
  "trigger_playbook clk customer ptype self =
     (case (if ptype = POST_INCIDENT_RECOVERY
            then Some (create_post_incident_recovery_playbook clk customer)
            else if ptype = ENGAGEMENT_REVIVAL
            then Some (create_engagement_revival_playbook clk customer)
            else None) of
        None \<Rightarrow> logger WARNING (PlaybookNotImplemented ptype) self
      | Some playbook \<Rightarrow>
          (let playbook1 =
                 (case current_health customer of
                    None \<Rightarrow> playbook
                  | Some h \<Rightarrow>
                      playbook\<lparr> baseline_health_score := Some (calculate_composite_score h) \<rparr>);
               self1 = self\<lparr> active_playbooks :=
                         dict_set (playbook_id playbook1) playbook1 (active_playbooks self) \<rparr>;
               self2 = logger INFO
                         (TriggeredPlaybook ptype (name customer) (playbook_id playbook1)) self1
           in notify_playbook_assignment playbook1 self2))"

definition escalate_to_executive ::
  "CustomerProfile \<Rightarrow> string \<Rightarrow> CustomerSuccessEngine
     \<Rightarrow> CustomerProfile \<times> CustomerSuccessEngine" where
  "escalate_to_executive customer reason self =
     (customer\<lparr> executive_escalation_required := True \<rparr>,
      logger WARNING (ExecutiveEscalationRequired (name customer) reason) self)"

definition check_playbook_triggers ::
  "clock \<Rightarrow> CustomerProfile \<Rightarrow> HealthMetrics option \<Rightarrow> HealthMetrics \<Rightarrow> CustomerSuccessEngine
     \<Rightarrow> CustomerProfile \<times> CustomerSuccessEngine" where
  "check_playbook_triggers clk customer previous_health new_health self =
     (let current_tier = get_health_tier new_health;
          self1 =
            (if is_post_incident customer \<and> trust_rebuilding_required customer
             then (if has_active_playbook self (customer_id customer) POST_INCIDENT_RECOVERY
                   then self
                   else trigger_playbook clk customer POST_INCIDENT_RECOVERY self)
             else self);
          self2 =
            (if current_tier = CRITICAL \<or> current_tier = RED_ALERT
             then (if has_active_playbook self1 (customer_id customer) CHURN_PREVENTION
                   then self1
                   else trigger_playbook clk customer CHURN_PREVENTION self1)
             else self1);
          self3 =
            (if engagement_score new_health < 60
             then (if has_active_playbook self2 (customer_id customer) ENGAGEMENT_REVIVAL
                   then self2
                   else trigger_playbook clk customer ENGAGEMENT_REVIVAL self2)
             else self2);
          self4 =
            (if value_realization_score new_health < 50
             then (if has_active_playbook self3 (customer_id customer) VALUE_ACCELERATION
                   then self3
                   else trigger_playbook clk customer VALUE_ACCELERATION self3)
             else self3)
      in case previous_health of
           None \<Rightarrow> (customer, self4)
         | Some previous \<Rightarrow>
             (let previous_score = calculate_composite_score previous;
                  current_score = calculate_composite_score new_health
              in if current_score < previous_score - 15
                 then escalate_to_executive customer ''significant_health_drop''
                        (logger WARNING
                           (SignificantHealthDrop (name customer) previous_score current_score)
                           self4)
                 else (customer, self4)))"

definition update_customer_health ::
  "clock \<Rightarrow> string \<Rightarrow> SignalBag \<Rightarrow> CustomerSuccessEngine
     \<Rightarrow> py_error + (HealthMetrics \<times> CustomerSuccessEngine)" where
  "update_customer_health clk cid customer_data self =
     (case map_of (customers self) cid of
        None \<Rightarrow> Inl (CustomerNotFound cid)
      | Some customer \<Rightarrow>
          (case calculate_health_metrics clk customer customer_data of
             Inl e \<Rightarrow> Inl e
           | Inr new_health \<Rightarrow>
               (let previous_health = current_health customer;
                    customer1 = customer\<lparr> current_health := Some new_health,
                                  health_history := health_history customer @ [new_health],
                                  last_engagement := Some (now clk) \<rparr>;
                    (customer2, self1) =
                      check_playbook_triggers clk customer1 previous_health new_health self;
                    self2 = self1\<lparr> customers := dict_set cid customer2 (customers self1) \<rparr>;
                    self3 = logger INFO
                              (UpdatedHealth (name customer2)
                                 (calculate_composite_score new_health)
                                 (get_health_tier new_health)) self2
                in Inr (new_health, self3))))"

text \<open>The first element that satisfies \<open>P\<close> is replaced by its image; the rest stay.\<close>

fun update_first :: "('a \<Rightarrow> bool) \<Rightarrow> ('a \<Rightarrow> 'a) \<Rightarrow> 'a list \<Rightarrow> 'a list" where
  "update_first P f [] = []"
| "update_first P f (x # xs) = (if P x then f x # xs else x # update_first P f xs)"

definition complete_playbook ::
  "RecoveryPlaybook \<Rightarrow> CustomerSuccessEngine \<Rightarrow> RecoveryPlaybook \<times> CustomerSuccessEngine" where
  "complete_playbook playbook self =
     (let playbook1 = playbook\<lparr> pb_status := ''completed'' \<rparr>;
          (playbook2, self1) =
            (case map_of (customers self) (pb_customer_id playbook1) of
               None \<Rightarrow> (playbook1, self)
             | Some customer \<Rightarrow>
                 (case current_health customer of
                    None \<Rightarrow> (playbook1, self)
                  | Some h \<Rightarrow>
                      (let score = calculate_composite_score h;
                           playbook2 = playbook1\<lparr> current_health_score := Some score \<rparr>
                       in case baseline_health_score playbook2 of
                            None \<Rightarrow> (playbook2, self)
                          | Some baseline \<Rightarrow>
                              if baseline = 0 then (playbook2, self)
                              else
                                (let improvement = score - baseline;
                                     playbook3 =
                                       playbook2\<lparr> outcome_summary := ImprovedBy improvement \<rparr>
                                 in (playbook3,
                                     if improvement \<ge> 10
                                     then logger INFO
                                            (SignificantImprovement (playbook_id playbook3)
                                               improvement) self
                                     else if improvement \<ge> 0
                                     then logger INFO
                                            (ModestImprovement (playbook_id playbook3)
                                               improvement) self
                                     else logger WARNING
                                            (NoImprovement (playbook_id playbook3)
                                               improvement) self)))))
      in (playbook2,
          logger INFO (CompletedPlaybook (playbook_id playbook2) (pb_customer_id playbook2))
            self1))"

text \<open>
  The action found is the first one with the identifier. \<^verbatim>\<open>if success_metrics:\<close> holds
  for a dictionary that is given and not empty. The division by the number of actions
  is reached only after an action was found, so the divisor is not zero.
\<close>

definition update_action ::
  "clock \<Rightarrow> ActionStatus \<Rightarrow> string \<Rightarrow> (string \<times> pyval) list option \<Rightarrow> PlaybookAction
     \<Rightarrow> PlaybookAction" where
  "update_action clk new_status note_text metrics action =
     (let action1 = action\<lparr> status := new_status, outcome_notes := note_text \<rparr>;
          action2 =
            (if new_status = COMPLETED then action1\<lparr> completion_date := Some (now clk) \<rparr>
             else action1)
      in case metrics of
           None \<Rightarrow> action2
         | Some m \<Rightarrow>
             if m = [] then action2
             else action2\<lparr> success_metrics := dict_update (success_metrics action2) m \<rparr>)"

definition update_playbook_action ::
  "clock \<Rightarrow> string \<Rightarrow> string \<Rightarrow> ActionStatus \<Rightarrow> string \<Rightarrow> (string \<times> pyval) list option
     \<Rightarrow> CustomerSuccessEngine \<Rightarrow> py_error + CustomerSuccessEngine" where
  "update_playbook_action clk pid aid new_status note_text metrics self =
     (case map_of (active_playbooks self) pid of
        None \<Rightarrow> Inl (PlaybookNotFound pid)
      | Some playbook \<Rightarrow>
          (case find (\<lambda>a. action_id a = aid) (actions playbook) of
             None \<Rightarrow> Inl (ActionNotFound aid pid)
           | Some action \<Rightarrow>
               (let actions1 =
                      update_first (\<lambda>a. action_id a = aid)
                        (update_action clk new_status note_text metrics) (actions playbook);
                    completed_actions = length (filter (\<lambda>a. status a = COMPLETED) actions1);
                    playbook1 = playbook\<lparr> actions := actions1,
                                  completion_percentage :=
                                    (real completed_actions / real (length actions1)) * 100 \<rparr>;
                    self1 = logger INFO (UpdatedAction aid pid new_status) self;
                    (playbook2, self2) =
                      (if completion_percentage playbook1 = 100
                       then complete_playbook playbook1 self1
                       else (playbook1, self1))
                in Inr (self2\<lparr> active_playbooks :=
                                dict_set pid playbook2 (active_playbooks self2) \<rparr>))))"

subsection \<open>Reports\<close>

record RecoveryMetrics =
  average_health_improvement :: real
  customers_with_improvement :: nat
  customers_with_decline :: nat
  significant_improvements :: nat

record Effectiveness =
  total_triggered :: nat
  completed :: nat
  successful :: nat
  success_rate :: real
  avg_completion_percentage :: real

text \<open>
  The report's key \<^verbatim>\<open>active_playbooks\<close> is the field \<open>active_playbooks_count\<close>. The
  dictionary \<^verbatim>\<open>health_distribution\<close> has every tier as a key from the start, so it is a
  total function on the tiers.
\<close>

record Report =
  report_generated_at :: datetime
  total_customers :: nat
  post_incident_customers :: nat
  health_distribution :: "HealthTier \<Rightarrow> nat"
  active_playbooks_count :: nat
  recovery_metrics :: RecoveryMetrics
  playbook_effectiveness :: "(PlaybookType \<times> Effectiveness) list"

text \<open>\<^verbatim>\<open>np.mean\<close> of a list that is not empty.\<close>

definition mean :: "real list \<Rightarrow> real" where
  "mean xs = sum_list xs / real (length xs)"

text \<open>Rounding to the nearest integer, a tie going to the even one.\<close>

definition rint :: "real \<Rightarrow> int" where
  "rint x =
     (let f = \<lfloor>x\<rfloor>; d = x - of_int f
      in if d < 1 / 2 then f else if d > 1 / 2 then f + 1 else if even f then f else f + 1)"

text \<open>\<^verbatim>\<open>round(x, 2)\<close>.\<close>

definition round2 :: "real \<Rightarrow> real" where
  "round2 x = of_int (rint (x * 100)) / 100"

text \<open>Truth of an \<^verbatim>\<open>Optional[float]\<close>: given and not zero.\<close>

fun truthy_score :: "real option \<Rightarrow> bool" where
  "truthy_score None = False"
| "truthy_score (Some x) = (x \<noteq> 0)"

text \<open>
  The filter of \<^verbatim>\<open>successful\<close>:
  \<^verbatim>\<open>pb.current_health_score and pb.baseline_health_score and current > baseline\<close>.
\<close>

definition is_successful :: "RecoveryPlaybook \<Rightarrow> bool" where
  "is_successful pb =
     (case current_health_score pb of
        None \<Rightarrow> False
      | Some score \<Rightarrow>
          (case baseline_health_score pb of
             None \<Rightarrow> False
           | Some baseline \<Rightarrow>
               truthy_score (Some score) \<and> truthy_score (Some baseline) \<and> score > baseline))"

definition effectiveness_entry :: "CustomerSuccessEngine \<Rightarrow> PlaybookType \<Rightarrow> Effectiveness option" where
  "effectiveness_entry self ptype =
     (let relevant_playbooks =
            filter (\<lambda>pb. playbook_type pb = ptype) (map snd (active_playbooks self))
      in if relevant_playbooks = [] then None
         else
           (let completed_pbs = filter (\<lambda>pb. pb_status pb = ''completed'') relevant_playbooks;
                successful_pbs = filter is_successful completed_pbs
            in Some \<lparr> total_triggered = length relevant_playbooks,
                      completed = length completed_pbs,
                      successful = length successful_pbs,
                      success_rate =
                        (if completed_pbs = [] then 0
                         else real (length successful_pbs) / real (length completed_pbs)),
                      avg_completion_percentage =
                        mean (map completion_percentage relevant_playbooks) \<rparr>))"

definition calculate_playbook_effectiveness ::
  "CustomerSuccessEngine \<Rightarrow> (PlaybookType \<times> Effectiveness) list" where
  "calculate_playbook_effectiveness self =
     foldl (\<lambda>effectiveness ptype.
              case effectiveness_entry self ptype of
                None \<Rightarrow> effectiveness
              | Some e \<Rightarrow> dict_set ptype e effectiveness)
       []
       [POST_INCIDENT_RECOVERY, ENGAGEMENT_REVIVAL, VALUE_ACCELERATION, CHURN_PREVENTION,
        TRUST_REBUILDING]"

text \<open>
  One round of the loop over the customers, on the three accumulators
  \<^verbatim>\<open>health_distribution\<close>, \<^verbatim>\<open>post_incident_customers\<close> and \<^verbatim>\<open>health_improvements\<close>.
\<close>

definition report_step ::
  "(HealthTier \<Rightarrow> nat) \<times> nat \<times> real list \<Rightarrow> CustomerProfile
     \<Rightarrow> (HealthTier \<Rightarrow> nat) \<times> nat \<times> real list" where
  "report_step acc customer =
     (case acc of (distribution, post_incident, improvements) \<Rightarrow>
        (case current_health customer of
           None \<Rightarrow> acc
         | Some h \<Rightarrow>
             (let tier = get_health_tier h;
                  distribution1 = distribution(tier := distribution tier + 1)
              in if is_post_incident customer
                 then (distribution1, post_incident + 1,
                       if length (health_history customer) \<ge> 2
                       then improvements
                            @ [calculate_composite_score h
                               - calculate_composite_score (health_history customer ! 0)]
                       else improvements)
                 else (distribution1, post_incident, improvements))))"

text \<open>\<^verbatim>\<open>if customer_id:\<close> holds for an identifier that is given and not empty.\<close>

definition selected_customers :: "CustomerSuccessEngine \<Rightarrow> string option \<Rightarrow> CustomerProfile list" where
  "selected_customers self cid =
     (case cid of
        None \<Rightarrow> map snd (customers self)
      | Some c \<Rightarrow>
          if c = [] then map snd (customers self)
          else (case map_of (customers self) c of None \<Rightarrow> [] | Some customer \<Rightarrow> [customer]))"

definition generate_recovery_report ::
  "clock \<Rightarrow> string option \<Rightarrow> CustomerSuccessEngine \<Rightarrow> Report" where
  "generate_recovery_report clk cid self =
     (let selected = selected_customers self cid;
          (distribution, post_incident, health_improvements) =
            foldl report_step
              (\<lambda>tier. 0, 0, []) selected;
          avg_health_improvement =
            (if health_improvements = [] then 0 else mean health_improvements)
      in \<lparr> report_generated_at = now clk,
           total_customers = length selected,
           post_incident_customers = post_incident,
           health_distribution = distribution,
           active_playbooks_count =
             length (filter (\<lambda>pb. pb_status pb = ''active'') (map snd (active_playbooks self))),
           recovery_metrics =
             \<lparr> average_health_improvement = round2 avg_health_improvement,
               customers_with_improvement = length (filter (\<lambda>i. i > 0) health_improvements),
               customers_with_decline = length (filter (\<lambda>i. i < 0) health_improvements),
               significant_improvements = length (filter (\<lambda>i. i \<ge> 15) health_improvements) \<rparr>,
           playbook_effectiveness = calculate_playbook_effectiveness self \<rparr>)"

subsection \<open>Sequences of engine calls\<close>

text \<open>
  A caller's call of one of the engine's state-changing entry points. A call that
  raises leaves the engine as it was: each exception is raised before the first write.
\<close>

datatype engine_call =
  AddCustomer CustomerProfile
  | UpdateCustomerHealth clock string SignalBag
  | UpdatePlaybookAction clock string string ActionStatus string "(string \<times> pyval) list option"

fun engine_step :: "CustomerSuccessEngine \<Rightarrow> engine_call \<Rightarrow> CustomerSuccessEngine" where
  "engine_step self (AddCustomer customer) = add_customer customer self"
| "engine_step self (UpdateCustomerHealth clk cid customer_data) =
     (case update_customer_health clk cid customer_data self of
        Inl e \<Rightarrow> self
      | Inr r \<Rightarrow> snd r)"
| "engine_step self (UpdatePlaybookAction clk pid aid new_status note_text metrics) =
     (case update_playbook_action clk pid aid new_status note_text metrics self of
        Inl e \<Rightarrow> self
      | Inr self1 \<Rightarrow> self1)"

definition engine_run :: "CustomerSuccessEngine \<Rightarrow> engine_call list \<Rightarrow> CustomerSuccessEngine" where
  "engine_run self calls = foldl engine_step self calls"

subsection \<open>Observations on engine states\<close>

text \<open>
  The number of stored playbooks that \<^verbatim>\<open>_has_active_playbook\<close> would accept for a
  customer and a playbook type.
\<close>

definition count_active :: "CustomerSuccessEngine \<Rightarrow> string \<Rightarrow> PlaybookType \<Rightarrow> nat" where
  "count_active self cid ptype =
     length (filter
       (\<lambda>pb. pb_customer_id pb = cid \<and> playbook_type pb = ptype \<and> pb_status pb = ''active'')
       (map snd (active_playbooks self)))"

text \<open>The number of executive escalations raised so far, read off the log.\<close>

fun is_escalation :: "log_level \<times> log_message \<Rightarrow> bool" where
  "is_escalation (lvl, ExecutiveEscalationRequired n r) = True"
| "is_escalation (lvl, msg) = False"

definition escalations_raised :: "CustomerSuccessEngine \<Rightarrow> nat" where
  "escalations_raised self = length (filter is_escalation (logged self))"

text \<open>A call that registers a profile under the identifier, replacing the one stored there.\<close>

fun re_registers :: "string \<Rightarrow> engine_call \<Rightarrow> bool" where
  "re_registers cid (AddCustomer customer) = (customer_id customer = cid)"
| "re_registers cid (UpdateCustomerHealth clk c customer_data) = False"
| "re_registers cid (UpdatePlaybookAction clk pid aid new_status note_text metrics) = False"

text \<open>
  One guarded rule of \<^verbatim>\<open>_check_playbook_triggers\<close>, and its four rules in their order;
  \<open>check_playbook_triggers\<close> is shown below to be these followed by the escalation rule.
\<close>

definition ensure_playbook ::
  "clock \<Rightarrow> CustomerProfile \<Rightarrow> PlaybookType \<Rightarrow> bool \<Rightarrow> CustomerSuccessEngine
     \<Rightarrow> CustomerSuccessEngine" where
  "ensure_playbook clk customer ptype cond self =
     (if cond
      then (if has_active_playbook self (customer_id customer) ptype then self
            else trigger_playbook clk customer ptype self)
      else self)"

definition guarded_triggers ::
  "clock \<Rightarrow> CustomerProfile \<Rightarrow> HealthMetrics \<Rightarrow> CustomerSuccessEngine \<Rightarrow> CustomerSuccessEngine" where
  "guarded_triggers clk customer new_health self =
     ensure_playbook clk customer VALUE_ACCELERATION (value_realization_score new_health < 50)
       (ensure_playbook clk customer ENGAGEMENT_REVIVAL (engagement_score new_health < 60)
          (ensure_playbook clk customer CHURN_PREVENTION
             (get_health_tier new_health = CRITICAL \<or> get_health_tier new_health = RED_ALERT)
             (ensure_playbook clk customer POST_INCIDENT_RECOVERY
                (is_post_incident customer \<and> trust_rebuilding_required customer) self)))"

text \<open>The baseline snapshot that \<^verbatim>\<open>_trigger_playbook\<close> takes on a new playbook.\<close>

definition with_baseline :: "CustomerProfile \<Rightarrow> RecoveryPlaybook \<Rightarrow> RecoveryPlaybook" where
  "with_baseline customer playbook =
     (case current_health customer of
        None \<Rightarrow> playbook
      | Some h \<Rightarrow> playbook\<lparr> baseline_health_score := Some (calculate_composite_score h) \<rparr>)"

text \<open>
  The percentage as its derivation reads: completed actions over all actions, times 100.
\<close>

definition derived_percentage :: "PlaybookAction list \<Rightarrow> real" where
  "derived_percentage acts =
     (real (length (filter (\<lambda>a. status a = COMPLETED) acts)) / real (length acts)) * 100"

text \<open>A status change along Pending, InProgress, Completed, one or two steps forward.\<close>

fun forward_move :: "ActionStatus \<Rightarrow> ActionStatus \<Rightarrow> bool" where
  "forward_move PENDING IN_PROGRESS = True"
| "forward_move IN_PROGRESS COMPLETED = True"
| "forward_move PENDING COMPLETED = True"
| "forward_move old_status new_status = False"

subsection \<open>Sample data\<close>

text \<open>
  The two customers of \<^verbatim>\<open>demonstrate_health_scoring_system\<close>, the signals of the second, a
  clock reading, and engine states built from them: the customer tracked with previous
  metrics of composite score 70, the same with the escalation flag set, and the same
  with a fresh engagement revival playbook.
\<close>

definition sample_clock :: clock where
  "sample_clock = \<lparr> now = 0, today = ''20250101'' \<rparr>"

definition enterprise_customer :: "clock \<Rightarrow> CustomerProfile" where
  "enterprise_customer clk =
     \<lparr> customer_id = ''CUST-001'',
       name = ''TechCorp Enterprise'',
       segment = ''enterprise'',
       contract_value = 500000,
       start_date = now clk - timedelta 365 0,
       renewal_date = now clk + timedelta 90 0,
       industry = ''Technology'',
       primary_contact =
         [(''name'', ''Sarah Johnson''), (''email'', ''sarah.johnson@techcorp.com''),
          (''role'', ''CTO'')],
       success_manager = ''csm-sarah@company.com'',
       incident_impact_level = ''high'',
       current_health = None,
       health_history = [],
       is_post_incident = True,
       last_engagement = None,
       trust_rebuilding_required = True,
       executive_escalation_required = False \<rparr>"

definition business_customer :: "clock \<Rightarrow> CustomerProfile" where
  "business_customer clk =
     \<lparr> customer_id = ''CUST-002'',
       name = ''MidSize Solutions'',
       segment = ''business'',
       contract_value = 75000,
       start_date = now clk - timedelta 180 0,
       renewal_date = now clk + timedelta 150 0,
       industry = ''Financial Services'',
       primary_contact =
         [(''name'', ''Mike Chen''), (''email'', ''mike.chen@midsize.com''),
          (''role'', ''Operations Director'')],
       success_manager = ''csm-mike@company.com'',
       incident_impact_level = ''medium'',
       current_health = None,
       health_history = [],
       is_post_incident = True,
       last_engagement = None,
       trust_rebuilding_required = False,
       executive_escalation_required = False \<rparr>"

definition business_data :: SignalBag where
  "business_data =
     [''logins_per_week'' \<mapsto> Num 4,
      ''features_used'' \<mapsto> Num 8,
      ''total_available_features'' \<mapsto> Num 12,
      ''support_satisfaction'' \<mapsto> Num 3.5,
      ''office_hours_attendance_rate'' \<mapsto> Num 0.4,
      ''help_articles_viewed'' \<mapsto> Num 5,
      ''goals_achieved'' \<mapsto> Num 3,
      ''total_goals_set'' \<mapsto> Num 4,
      ''measured_roi'' \<mapsto> Num 1.8,
      ''expected_roi'' \<mapsto> Num 1.5,
      ''business_outcomes_achieved'' \<mapsto> Num 2,
      ''days_to_first_value'' \<mapsto> Num 25,
      ''target_days_to_value'' \<mapsto> Num 30,
      ''nps_score'' \<mapsto> Num 10,
      ''csat_score'' \<mapsto> Num 3.8,
      ''trust_index'' \<mapsto> Num 6.5,
      ''stakeholder_engagement_rate'' \<mapsto> Num 0.7,
      ''avg_response_time_hours'' \<mapsto> Num 18,
      ''contract_risk_level'' \<mapsto> Num 1,
      ''payment_delays_count'' \<mapsto> Num 0,
      ''competitive_evaluation'' \<mapsto> Flag False,
      ''usage_trend_30d'' \<mapsto> Num 0.05,
      ''support_escalations_30d'' \<mapsto> Num 0,
      ''key_contact_changes_90d'' \<mapsto> Num 0]"

definition sample_previous :: HealthMetrics where
  "sample_previous =
     \<lparr> engagement_score = 70, value_realization_score = 70,
       relationship_health_score = 70, risk_indicators_score = 30, calculated_at = 0 \<rparr>"

definition tracked_customer :: CustomerProfile where
  "tracked_customer =
     (business_customer sample_clock)
       \<lparr> current_health := Some sample_previous, health_history := [sample_previous] \<rparr>"

definition tracked_engine :: CustomerSuccessEngine where
  "tracked_engine =
     \<lparr> customers = [(''CUST-002'', tracked_customer)], active_playbooks = [], logged = [] \<rparr>"

definition escalated_engine :: CustomerSuccessEngine where
  "escalated_engine =
     \<lparr> customers =
         [(''CUST-002'', tracked_customer\<lparr> executive_escalation_required := True \<rparr>)],
       active_playbooks = [], logged = [] \<rparr>"

definition revival_engine :: CustomerSuccessEngine where
  "revival_engine =
     tracked_engine
       \<lparr> active_playbooks :=
           [(''ER-CUST-002-20250101'',
             create_engagement_revival_playbook sample_clock tracked_customer)] \<rparr>"

subsection \<open>Observations on reports\<close>

text \<open>
  The average improvement as the specification words it: the mean of latest composite
  minus first composite over every customer with at least 2 history entries, 0 when
  there are none.
\<close>

definition spec_average_improvement :: "CustomerProfile list \<Rightarrow> real" where
  "spec_average_improvement cs =
     (let improvements =
            map (\<lambda>c. calculate_composite_score (last (health_history c))
                      - calculate_composite_score (hd (health_history c)))
              (filter (\<lambda>c. length (health_history c) \<ge> 2) cs)
      in if improvements = [] then 0 else mean improvements)"

text \<open>
  What the loop of the report measures: a customer enters the average when it has a
  current health, is post-incident and has at least 2 history entries, with the
  composite of its current health minus that of its first history entry.
\<close>

definition counts_for_average :: "CustomerProfile \<Rightarrow> bool" where
  "counts_for_average c =
     (current_health c \<noteq> None \<and> is_post_incident c \<and> length (health_history c) \<ge> 2)"

definition improvement_of :: "CustomerProfile \<Rightarrow> real" where
  "improvement_of c =
     (case current_health c of
        None \<Rightarrow> 0
      | Some h \<Rightarrow> calculate_composite_score h - calculate_composite_score (health_history c ! 0))"

text \<open>The stored playbooks of a type, and the completed ones among them.\<close>

definition playbooks_of_type :: "CustomerSuccessEngine \<Rightarrow> PlaybookType \<Rightarrow> RecoveryPlaybook list" where
  "playbooks_of_type self ptype =
     filter (\<lambda>pb. playbook_type pb = ptype) (map snd (active_playbooks self))"

definition completed_of_type :: "CustomerSuccessEngine \<Rightarrow> PlaybookType \<Rightarrow> RecoveryPlaybook list" where
  "completed_of_type self ptype =
     filter (\<lambda>pb. pb_status pb = ''completed'') (playbooks_of_type self ptype)"

text \<open>
  Success as the specification words it: both scores are there and the current one is
  greater than the baseline. A playbook whose scores are not exactly 0 is one on which
  the truth tests of the source agree with the scores being there.
\<close>

definition improved :: "RecoveryPlaybook \<Rightarrow> bool" where
  "improved pb =
     (case current_health_score pb of
        None \<Rightarrow> False
      | Some score \<Rightarrow>
          (case baseline_health_score pb of None \<Rightarrow> False | Some baseline \<Rightarrow> score > baseline))"

definition scores_nonzero :: "RecoveryPlaybook \<Rightarrow> bool" where
  "scores_nonzero pb =
     (current_health_score pb \<noteq> Some 0 \<and> baseline_health_score pb \<noteq> Some 0)"

text \<open>
  Metrics whose composite score is \<open>s\<close>, and two engine states: a customer that is not
  post-incident and went from 50 to 60; a post-incident customer that went from 50 to 60
  and has a completed engagement revival playbook with baseline 50 and final score 60.
\<close>

definition metrics_at :: "real \<Rightarrow> HealthMetrics" where
  "metrics_at s =
     \<lparr> engagement_score = s, value_realization_score = s, relationship_health_score = s,
       risk_indicators_score = 100 - s, calculated_at = 0 \<rparr>"

definition steady_engine :: CustomerSuccessEngine where
  "steady_engine =
     \<lparr> customers =
         [(''CUST-002'',
           (business_customer sample_clock)
             \<lparr> is_post_incident := False,
               current_health := Some (metrics_at 60),
               health_history := [metrics_at 50, metrics_at 60] \<rparr>)],
       active_playbooks = [], logged = [] \<rparr>"

definition finished_engine :: CustomerSuccessEngine where
  "finished_engine =
     \<lparr> customers =
         [(''CUST-002'',
           (business_customer sample_clock)
             \<lparr> current_health := Some (metrics_at 60),
               health_history := [metrics_at 50, metrics_at 60] \<rparr>)],
       active_playbooks =
         [(''ER-CUST-002-20250101'',
           (create_engagement_revival_playbook sample_clock (business_customer sample_clock))
             \<lparr> pb_status := ''completed'', completion_percentage := 100,
               baseline_health_score := Some 50, current_health_score := Some 60,
               outcome_summary := ImprovedBy 10 \<rparr>)],
       logged = [] \<rparr>"

subsection \<open>Observations on sequences of action updates\<close>

text \<open>
  A list of action updates on one playbook, as calls of the engine; whether each of them
  finds the playbook and the action and moves the action forward; and the percentage
  stored after each of them.
\<close>

type_synonym action_update =
  "clock \<times> string \<times> ActionStatus \<times> string \<times> (string \<times> pyval) list option"

fun as_call :: "string \<Rightarrow> action_update \<Rightarrow> engine_call" where
  "as_call pid (clk, aid, new_status, note_text, metrics) =
     UpdatePlaybookAction clk pid aid new_status note_text metrics"

fun all_forward :: "CustomerSuccessEngine \<Rightarrow> string \<Rightarrow> action_update list \<Rightarrow> bool" where
  "all_forward self pid [] = True"
| "all_forward self pid (u # us) =
     (case map_of (active_playbooks self) pid of
        None \<Rightarrow> False
      | Some pb \<Rightarrow>
          (case find (\<lambda>a. action_id a = fst (snd u)) (actions pb) of
             None \<Rightarrow> False
           | Some a \<Rightarrow>
               forward_move (status a) (fst (snd (snd u)))
               \<and> all_forward (engine_step self (as_call pid u)) pid us))"

fun percentages :: "CustomerSuccessEngine \<Rightarrow> string \<Rightarrow> action_update list \<Rightarrow> real list" where
  "percentages self pid [] = []"
| "percentages self pid (u # us) =
     (let self1 = engine_step self (as_call pid u)
      in (case map_of (active_playbooks self1) pid of
            None \<Rightarrow> []
          | Some pb \<Rightarrow> [completion_percentage pb])
         @ percentages self1 pid us)"

section \<open>Properties\<close>

subsection \<open>Dictionaries\<close>

lemma map_of_dict_set: "map_of (dict_set k v xs) k' = (if k' = k then Some v else map_of xs k')"
  by (induction xs) auto

subsection \<open>Composite score and tier\<close>

text \<open>
  C1. The composite score is the weighted sum of the four sub-scores, the risk score
  inverted, clamped to the interval from 0 to 100. For the sub-scores 90, 90, 90 and
  risk 0 it is exactly 91, and for every metrics value it lies between 0 and 100.
\<close>

theorem composite_score_weighted_sum_clamped:
  "calculate_composite_score m =
     min 100 (max 0 (engagement_score m * 0.35 + value_realization_score m * 0.30
                     + relationship_health_score m * 0.25
                     + (100 - risk_indicators_score m) * 0.10))
   \<and> calculate_composite_score
         \<lparr> engagement_score = 90, value_realization_score = 90,
           relationship_health_score = 90, risk_indicators_score = 0, calculated_at = t \<rparr> = 91
   \<and> 0 \<le> calculate_composite_score m \<and> calculate_composite_score m \<le> 100"
  by (simp add: calculate_composite_score_def Let_def)

text \<open>
  C2. The tier is Healthy exactly for a composite score of at least 80, AtRisk exactly
  from 60 up to but excluding 80, Critical exactly from 40 up to but excluding 60, and
  RedAlert exactly below 40. Metrics whose composite score is exactly 80, 60 and 40
  land in the higher tier.
\<close>

theorem health_tier_breakpoints:
  "(get_health_tier m = HEALTHY \<longleftrightarrow> calculate_composite_score m \<ge> 80)
   \<and> (get_health_tier m = AT_RISK \<longleftrightarrow>
        60 \<le> calculate_composite_score m \<and> calculate_composite_score m < 80)
   \<and> (get_health_tier m = CRITICAL \<longleftrightarrow>
        40 \<le> calculate_composite_score m \<and> calculate_composite_score m < 60)
   \<and> (get_health_tier m = RED_ALERT \<longleftrightarrow> calculate_composite_score m < 40)
   \<and> get_health_tier
         \<lparr> engagement_score = 80, value_realization_score = 80,
           relationship_health_score = 80, risk_indicators_score = 20, calculated_at = t \<rparr>
       = HEALTHY
   \<and> get_health_tier
         \<lparr> engagement_score = 60, value_realization_score = 60,
           relationship_health_score = 60, risk_indicators_score = 40, calculated_at = t \<rparr>
       = AT_RISK
   \<and> get_health_tier
         \<lparr> engagement_score = 40, value_realization_score = 40,
           relationship_health_score = 40, risk_indicators_score = 60, calculated_at = t \<rparr>
       = CRITICAL"
proof -
  have steps:
    "(get_health_tier m = HEALTHY \<longleftrightarrow> calculate_composite_score m \<ge> 80)
     \<and> (get_health_tier m = AT_RISK \<longleftrightarrow>
          60 \<le> calculate_composite_score m \<and> calculate_composite_score m < 80)
     \<and> (get_health_tier m = CRITICAL \<longleftrightarrow>
          40 \<le> calculate_composite_score m \<and> calculate_composite_score m < 60)
     \<and> (get_health_tier m = RED_ALERT \<longleftrightarrow> calculate_composite_score m < 40)"
    by (auto simp: get_health_tier_def Let_def)
  have boundaries:
    "get_health_tier
       \<lparr> engagement_score = 80, value_realization_score = 80,
         relationship_health_score = 80, risk_indicators_score = 20, calculated_at = t \<rparr>
     = HEALTHY"
    "get_health_tier
       \<lparr> engagement_score = 60, value_realization_score = 60,
         relationship_health_score = 60, risk_indicators_score = 40, calculated_at = t \<rparr>
     = AT_RISK"
    "get_health_tier
       \<lparr> engagement_score = 40, value_realization_score = 40,
         relationship_health_score = 40, risk_indicators_score = 60, calculated_at = t \<rparr>
     = CRITICAL"
    by (simp_all add: get_health_tier_def calculate_composite_score_def Let_def)
  from steps boundaries show ?thesis by blast
qed

subsection \<open>Sub-score calculators\<close>

text \<open>
  C6, at two inputs. A support satisfaction of -100 gives the engagement score -505,
  below 0. With every other relationship signal at the bottom of its documented scale,
  an average response time of 0 hours gives the relationship score 30: the
  responsiveness component alone, whose budget is 15 points.
\<close>

theorem sub_scores_leave_their_budgets:
  "calculate_engagement_score [''support_satisfaction'' \<mapsto> Num (- 100)] = - 505
   \<and> calculate_relationship_health_score
         [''nps_score'' \<mapsto> Num (- 100), ''csat_score'' \<mapsto> Num 1, ''trust_index'' \<mapsto> Num 1,
          ''stakeholder_engagement_rate'' \<mapsto> Num 0, ''avg_response_time_hours'' \<mapsto> Num 0] = 30"
  by (simp add: calculate_engagement_score_def calculate_relationship_health_score_def
      get_num_def Let_def)

text \<open>
  C7, at one input. A target of 0 days to value makes the value realization calculator,
  and with it the calculation of the health metrics for any customer, raise
  ZeroDivisionError.
\<close>

theorem zero_target_days_raises:
  "calculate_value_realization_score [''target_days_to_value'' \<mapsto> Num 0] = Inl ZeroDivisionError
   \<and> calculate_health_metrics clk customer [''target_days_to_value'' \<mapsto> Num 0]
       = Inl ZeroDivisionError"
  by (simp add: calculate_value_realization_score_def calculate_health_metrics_def
      get_num_def Let_def)

subsection \<open>Engine operations\<close>

lemma logger_simps [simp]:
  "customers (logger lvl msg self) = customers self"
  "active_playbooks (logger lvl msg self) = active_playbooks self"
  "logged (logger lvl msg self) = logged self @ [(lvl, msg)]"
  by (simp_all add: logger_def)

lemma find_None_action: "(find (\<lambda>a. action_id a = aid) xs = None) = (aid \<notin> action_id ` set xs)"
  by (auto simp: find_None_iff)

lemma find_Some_action:
  "find (\<lambda>a. action_id a = aid) xs = Some a \<Longrightarrow> aid \<in> action_id ` set xs"
  by (metis find_None_action option.distinct(1))

lemma value_realization_error:
  "calculate_value_realization_score customer_data = Inl e \<Longrightarrow> e = ZeroDivisionError"
  by (simp add: calculate_value_realization_score_def Let_def split: if_splits)

lemma health_metrics_error:
  "calculate_health_metrics clk customer customer_data = Inl e \<Longrightarrow> e = ZeroDivisionError"
  by (auto simp: calculate_health_metrics_def Let_def dest: value_realization_error
      split: sum.splits)

lemma update_customer_health_Inl:
  "update_customer_health clk cid customer_data self = Inl e \<longleftrightarrow>
     (case map_of (customers self) cid of
        None \<Rightarrow> e = CustomerNotFound cid
      | Some customer \<Rightarrow> calculate_health_metrics clk customer customer_data = Inl e)"
  by (auto simp: update_customer_health_def Let_def case_prod_beta
      split: option.splits sum.splits)

lemma update_playbook_action_Inl:
  "update_playbook_action clk pid aid new_status note_text metrics self = Inl e \<longleftrightarrow>
     (case map_of (active_playbooks self) pid of
        None \<Rightarrow> e = PlaybookNotFound pid
      | Some pb \<Rightarrow> aid \<notin> action_id ` set (actions pb) \<and> e = ActionNotFound aid pid)"
  by (auto simp: update_playbook_action_def Let_def case_prod_beta find_None_action
      dest: find_Some_action split: option.splits)

lemma update_playbook_action_Inr:
  "(\<exists>self1. update_playbook_action clk pid aid new_status note_text metrics self = Inr self1) \<longleftrightarrow>
     (\<exists>pb. map_of (active_playbooks self) pid = Some pb \<and> aid \<in> action_id ` set (actions pb))"
  by (auto simp: update_playbook_action_def Let_def case_prod_beta find_None_action
      dest: find_Some_action split: option.splits)

text \<open>
  C8. Updating the health of a customer fails with a not-found error exactly when the
  registry has no entry for the identifier. Updating a playbook action fails with a
  not-found error exactly when no playbook is stored under the identifier or the stored
  playbook has no action with the action identifier, and succeeds otherwise. Triggering
  value-acceleration, churn-prevention or trust-rebuilding returns the engine with one
  warning appended to the log and nothing else changed.
\<close>

theorem not_found_and_unimplemented:
  "((\<exists>e. update_customer_health clk cid customer_data self = Inl e \<and> is_not_found e)
      \<longleftrightarrow> map_of (customers self) cid = None)
   \<and> ((\<exists>e. update_playbook_action clk pid aid new_status note_text metrics self = Inl e
            \<and> is_not_found e)
      \<longleftrightarrow> (map_of (active_playbooks self) pid = None
           \<or> (\<exists>pb. map_of (active_playbooks self) pid = Some pb
                    \<and> aid \<notin> action_id ` set (actions pb))))
   \<and> ((\<exists>self1. update_playbook_action clk pid aid new_status note_text metrics self = Inr self1)
      \<longleftrightarrow> (\<exists>pb. map_of (active_playbooks self) pid = Some pb
                    \<and> aid \<in> action_id ` set (actions pb)))
   \<and> trigger_playbook clk customer VALUE_ACCELERATION self
       = self\<lparr> logged := logged self @ [(WARNING, PlaybookNotImplemented VALUE_ACCELERATION)] \<rparr>
   \<and> trigger_playbook clk customer CHURN_PREVENTION self
       = self\<lparr> logged := logged self @ [(WARNING, PlaybookNotImplemented CHURN_PREVENTION)] \<rparr>
   \<and> trigger_playbook clk customer TRUST_REBUILDING self
       = self\<lparr> logged := logged self @ [(WARNING, PlaybookNotImplemented TRUST_REBUILDING)] \<rparr>"
proof -
  have a: "(\<exists>e. update_customer_health clk cid customer_data self = Inl e \<and> is_not_found e)
      \<longleftrightarrow> map_of (customers self) cid = None"
  proof (cases "map_of (customers self) cid")
    case None
    then show ?thesis by (simp add: update_customer_health_Inl)
  next
    case (Some customer)
    then show ?thesis
      by (auto simp: update_customer_health_Inl dest: health_metrics_error)
  qed
  have b: "(\<exists>e. update_playbook_action clk pid aid new_status note_text metrics self = Inl e
            \<and> is_not_found e)
      \<longleftrightarrow> (map_of (active_playbooks self) pid = None
           \<or> (\<exists>pb. map_of (active_playbooks self) pid = Some pb
                    \<and> aid \<notin> action_id ` set (actions pb)))"
    by (cases "map_of (active_playbooks self) pid") (auto simp: update_playbook_action_Inl)
  have d: "trigger_playbook clk customer VALUE_ACCELERATION self
       = self\<lparr> logged := logged self @ [(WARNING, PlaybookNotImplemented VALUE_ACCELERATION)] \<rparr>"
    "trigger_playbook clk customer CHURN_PREVENTION self
       = self\<lparr> logged := logged self @ [(WARNING, PlaybookNotImplemented CHURN_PREVENTION)] \<rparr>"
    "trigger_playbook clk customer TRUST_REBUILDING self
       = self\<lparr> logged := logged self @ [(WARNING, PlaybookNotImplemented TRUST_REBUILDING)] \<rparr>"
    by (simp_all add: trigger_playbook_def logger_def)
  from a b update_playbook_action_Inr [of clk pid aid new_status note_text metrics self] d
  show ?thesis by blast
qed


lemma trigger_playbook_customers [simp]:
  "customers (trigger_playbook clk customer ptype self) = customers self"
  by (simp add: trigger_playbook_def notify_playbook_assignment_def Let_def
      split: option.splits)

lemma escalations_logger:
  "escalations_raised (logger lvl msg self) =
     escalations_raised self + (if is_escalation (lvl, msg) then 1 else 0)"
  by (simp add: escalations_raised_def)

lemma trigger_playbook_escalations [simp]:
  "escalations_raised (trigger_playbook clk customer ptype self) = escalations_raised self"
  by (simp add: trigger_playbook_def notify_playbook_assignment_def Let_def escalations_logger
      escalations_raised_def split: option.splits)


lemma check_playbook_triggers_alt:
  "check_playbook_triggers clk customer previous_health new_health self =
     (case previous_health of
        None \<Rightarrow> (customer, guarded_triggers clk customer new_health self)
      | Some previous \<Rightarrow>
          if calculate_composite_score new_health < calculate_composite_score previous - 15
          then escalate_to_executive customer ''significant_health_drop''
                 (logger WARNING
                    (SignificantHealthDrop (name customer) (calculate_composite_score previous)
                       (calculate_composite_score new_health))
                    (guarded_triggers clk customer new_health self))
          else (customer, guarded_triggers clk customer new_health self))"
  unfolding check_playbook_triggers_def guarded_triggers_def ensure_playbook_def Let_def
  by (rule refl)

lemma ensure_playbook_customers [simp]:
  "customers (ensure_playbook clk customer ptype cond self) = customers self"
  by (simp add: ensure_playbook_def)

lemma ensure_playbook_escalations [simp]:
  "escalations_raised (ensure_playbook clk customer ptype cond self) = escalations_raised self"
  by (simp add: ensure_playbook_def)

lemma guarded_triggers_customers [simp]:
  "customers (guarded_triggers clk customer new_health self) = customers self"
  by (simp add: guarded_triggers_def)

lemma guarded_triggers_escalations [simp]:
  "escalations_raised (guarded_triggers clk customer new_health self) = escalations_raised self"
  by (simp add: guarded_triggers_def)

lemma count_dict_set_le:
  "length (filter P (map snd (dict_set k v xs)))
     \<le> length (filter P (map snd xs)) + (if P v then 1 else 0)"
  by (induction xs) auto

lemma count_dict_set_replace:
  "map_of xs k = Some v0 \<Longrightarrow> (P v \<Longrightarrow> P v0) \<Longrightarrow>
     length (filter P (map snd (dict_set k v xs))) \<le> length (filter P (map snd xs))"
  by (induction xs) (auto split: if_splits)

lemma has_active_playbook_count:
  "has_active_playbook self cid ptype \<longleftrightarrow> count_active self cid ptype \<noteq> 0"
  by (auto simp: has_active_playbook_def count_active_def list_ex_iff filter_empty_conv)

lemma count_active_logger [simp]:
  "count_active (logger lvl msg self) cid ptype = count_active self cid ptype"
  by (simp add: count_active_def)

lemma created_post_incident_fields [simp]:
  "pb_customer_id (create_post_incident_recovery_playbook clk customer) = customer_id customer"
  "playbook_type (create_post_incident_recovery_playbook clk customer) = POST_INCIDENT_RECOVERY"
  "pb_status (create_post_incident_recovery_playbook clk customer) = ''active''"
  "current_health_score (create_post_incident_recovery_playbook clk customer) = None"
  "outcome_summary (create_post_incident_recovery_playbook clk customer) = NoSummary"
  by (simp_all add: create_post_incident_recovery_playbook_def)

lemma created_engagement_fields [simp]:
  "pb_customer_id (create_engagement_revival_playbook clk customer) = customer_id customer"
  "playbook_type (create_engagement_revival_playbook clk customer) = ENGAGEMENT_REVIVAL"
  "pb_status (create_engagement_revival_playbook clk customer) = ''active''"
  "current_health_score (create_engagement_revival_playbook clk customer) = None"
  "outcome_summary (create_engagement_revival_playbook clk customer) = NoSummary"
  by (simp_all add: create_engagement_revival_playbook_def)

lemma trigger_playbook_stores:
  assumes "pt = POST_INCIDENT_RECOVERY \<or> pt = ENGAGEMENT_REVIVAL"
  shows "\<exists>pb. active_playbooks (trigger_playbook clk customer pt self)
           = dict_set (playbook_id pb) pb (active_playbooks self)
        \<and> pb_customer_id pb = customer_id customer \<and> playbook_type pb = pt
        \<and> pb_status pb = ''active'' \<and> current_health_score pb = None
        \<and> outcome_summary pb = NoSummary"
proof -
  define pb0 where "pb0 = (if pt = POST_INCIDENT_RECOVERY
      then create_post_incident_recovery_playbook clk customer
      else create_engagement_revival_playbook clk customer)"
  define pb where "pb = (case current_health customer of None \<Rightarrow> pb0
      | Some h \<Rightarrow> pb0\<lparr> baseline_health_score := Some (calculate_composite_score h) \<rparr>)"
  have fields0: "pb_customer_id pb0 = customer_id customer" "playbook_type pb0 = pt"
    "pb_status pb0 = ''active''" "current_health_score pb0 = None"
    "outcome_summary pb0 = NoSummary"
    using assms unfolding pb0_def by auto
  have fields: "pb_customer_id pb = customer_id customer" "playbook_type pb = pt"
    "pb_status pb = ''active''" "current_health_score pb = None"
    "outcome_summary pb = NoSummary"
    unfolding pb_def using fields0 by (simp_all split: option.splits)
  have "trigger_playbook clk customer pt self =
      notify_playbook_assignment pb
        (logger INFO (TriggeredPlaybook pt (name customer) (playbook_id pb))
           (self\<lparr> active_playbooks := dict_set (playbook_id pb) pb (active_playbooks self) \<rparr>))"
    using assms unfolding trigger_playbook_def pb_def pb0_def Let_def by auto
  then have "active_playbooks (trigger_playbook clk customer pt self)
      = dict_set (playbook_id pb) pb (active_playbooks self)"
    by (simp add: notify_playbook_assignment_def)
  with fields show ?thesis by blast
qed

lemma trigger_playbook_unimplemented:
  "pt \<noteq> POST_INCIDENT_RECOVERY \<Longrightarrow> pt \<noteq> ENGAGEMENT_REVIVAL \<Longrightarrow>
   active_playbooks (trigger_playbook clk customer pt self) = active_playbooks self"
  by (simp add: trigger_playbook_def)

lemma count_active_trigger:
  "count_active (trigger_playbook clk customer pt self) cid ptype
     \<le> count_active self cid ptype + (if cid = customer_id customer \<and> ptype = pt then 1 else 0)"
proof (cases "pt = POST_INCIDENT_RECOVERY \<or> pt = ENGAGEMENT_REVIVAL")
  case False
  then show ?thesis by (simp add: count_active_def trigger_playbook_unimplemented)
next
  case True
  from trigger_playbook_stores [OF True, of clk customer self]
  obtain pb where eq: "active_playbooks (trigger_playbook clk customer pt self)
           = dict_set (playbook_id pb) pb (active_playbooks self)"
    and ids: "pb_customer_id pb = customer_id customer" "playbook_type pb = pt"
    by blast
  show ?thesis
    unfolding count_active_def eq
    by (rule order_trans [OF count_dict_set_le]) (auto simp: ids)
qed

lemma count_active_ensure:
  "count_active (ensure_playbook clk customer pt cond self) cid ptype
     \<le> max 1 (count_active self cid ptype)"
proof (cases "cond \<and> \<not> has_active_playbook self (customer_id customer) pt")
  case False
  then show ?thesis by (auto simp: ensure_playbook_def)
next
  case True
  then have none: "count_active self (customer_id customer) pt = 0"
    by (simp add: has_active_playbook_count)
  have "count_active (trigger_playbook clk customer pt self) cid ptype
     \<le> max 1 (count_active self cid ptype)"
    using count_active_trigger [of clk customer pt self cid ptype] none
    by (auto split: if_splits)
  with True show ?thesis by (simp add: ensure_playbook_def)
qed

lemma max_one_trans: "(a::nat) \<le> max 1 b \<Longrightarrow> b \<le> max 1 c \<Longrightarrow> a \<le> max 1 c"
  by auto

lemma count_active_guarded:
  "count_active (guarded_triggers clk customer new_health self) cid ptype
     \<le> max 1 (count_active self cid ptype)"
  unfolding guarded_triggers_def
  by (rule max_one_trans [OF count_active_ensure], rule max_one_trans [OF count_active_ensure],
      rule max_one_trans [OF count_active_ensure], rule count_active_ensure)

lemma count_active_escalate [simp]:
  "count_active (snd (escalate_to_executive customer reason self)) cid ptype
     = count_active self cid ptype"
  by (simp add: escalate_to_executive_def)

lemma count_active_check:
  "count_active (snd (check_playbook_triggers clk customer previous_health new_health self))
     cid ptype \<le> max 1 (count_active self cid ptype)"
  using count_active_guarded [of clk customer new_health self cid ptype]
  by (cases previous_health) (simp_all add: check_playbook_triggers_alt)


subsection \<open>Trigger evaluation and health updates\<close>

lemma check_playbook_triggers_customers [simp]:
  "customers (snd (check_playbook_triggers clk customer previous_health new_health self))
     = customers self"
  by (cases previous_health)
     (simp_all add: check_playbook_triggers_alt escalate_to_executive_def)

lemma check_playbook_triggers_profile:
  "fst (check_playbook_triggers clk customer previous_health new_health self) =
     (case previous_health of
        None \<Rightarrow> customer
      | Some previous \<Rightarrow>
          if calculate_composite_score previous - calculate_composite_score new_health > 15
          then customer\<lparr> executive_escalation_required := True \<rparr>
          else customer)"
  by (cases previous_health)
     (auto simp: check_playbook_triggers_alt escalate_to_executive_def)

lemma check_playbook_triggers_escalations:
  "escalations_raised (snd (check_playbook_triggers clk customer previous_health new_health self))
     = escalations_raised self +
       (case previous_health of
          None \<Rightarrow> 0
        | Some previous \<Rightarrow>
            if calculate_composite_score previous - calculate_composite_score new_health > 15
            then 1 else 0)"
  by (cases previous_health)
     (auto simp: check_playbook_triggers_alt escalate_to_executive_def escalations_logger)

lemma update_customer_health_Inr:
  assumes "map_of (customers self) cid = Some customer"
    and "calculate_health_metrics clk customer customer_data = Inr new_health"
  shows "update_customer_health clk cid customer_data self =
     (let customer1 = customer\<lparr> current_health := Some new_health,
                        health_history := health_history customer @ [new_health],
                        last_engagement := Some (now clk) \<rparr>;
          r = check_playbook_triggers clk customer1 (current_health customer) new_health self
      in Inr (new_health,
              logger INFO
                (UpdatedHealth (name (fst r)) (calculate_composite_score new_health)
                   (get_health_tier new_health))
                ((snd r)\<lparr> customers := dict_set cid (fst r) (customers (snd r)) \<rparr>)))"
  using assms by (simp add: update_customer_health_def Let_def case_prod_beta)

lemma count_active_customers_update [simp]:
  "count_active (self\<lparr> customers := cs \<rparr>) cid ptype = count_active self cid ptype"
  by (simp add: count_active_def)

lemma escalations_customers_update [simp]:
  "escalations_raised (self\<lparr> customers := cs \<rparr>) = escalations_raised self"
  by (simp add: escalations_raised_def)

lemma count_active_update_customer_health:
  "update_customer_health clk c customer_data self = Inr r \<Longrightarrow>
     count_active (snd r) cid ptype \<le> max 1 (count_active self cid ptype)"
proof -
  assume ok: "update_customer_health clk c customer_data self = Inr r"
  then obtain customer where reg: "map_of (customers self) c = Some customer"
    by (cases "map_of (customers self) c") (auto simp: update_customer_health_def)
  with ok obtain new_health
    where new: "calculate_health_metrics clk customer customer_data = Inr new_health"
    by (cases "calculate_health_metrics clk customer customer_data")
       (auto simp: update_customer_health_def)
  show ?thesis
    using ok count_active_check
    unfolding update_customer_health_Inr [OF reg new] Let_def
    by auto
qed

subsection \<open>Playbook lifecycle\<close>

lemma complete_playbook_engine [simp]:
  "customers (snd (complete_playbook pb self)) = customers self"
  "active_playbooks (snd (complete_playbook pb self)) = active_playbooks self"
  by (simp_all add: complete_playbook_def Let_def case_prod_beta split: option.splits)

lemma complete_playbook_fields [simp]:
  "pb_status (fst (complete_playbook pb self)) = ''completed''"
  "pb_customer_id (fst (complete_playbook pb self)) = pb_customer_id pb"
  "playbook_type (fst (complete_playbook pb self)) = playbook_type pb"
  "actions (fst (complete_playbook pb self)) = actions pb"
  "completion_percentage (fst (complete_playbook pb self)) = completion_percentage pb"
  by (simp_all add: complete_playbook_def Let_def case_prod_beta split: option.splits)


lemma update_playbook_action_Inr_eq:
  assumes "map_of (active_playbooks self) pid = Some pb"
    and "aid \<in> action_id ` set (actions pb)"
  shows "update_playbook_action clk pid aid new_status note_text metrics self =
     (let actions1 = update_first (\<lambda>a. action_id a = aid)
                       (update_action clk new_status note_text metrics) (actions pb);
          pb1 = pb\<lparr> actions := actions1,
                  completion_percentage := derived_percentage actions1 \<rparr>;
          self1 = logger INFO (UpdatedAction aid pid new_status) self;
          r = (if completion_percentage pb1 = 100 then complete_playbook pb1 self1
               else (pb1, self1))
      in Inr ((snd r)\<lparr> active_playbooks := dict_set pid (fst r) (active_playbooks (snd r)) \<rparr>))"
proof -
  from assms(2) obtain a where "find (\<lambda>a. action_id a = aid) (actions pb) = Some a"
    by (cases "find (\<lambda>a. action_id a = aid) (actions pb)") (auto simp: find_None_action)
  with assms(1) show ?thesis
    by (simp add: update_playbook_action_def Let_def case_prod_beta derived_percentage_def)
qed

lemma update_playbook_action_success:
  assumes "update_playbook_action clk pid aid new_status note_text metrics self = Inr self1"
  shows "\<exists>pb. map_of (active_playbooks self) pid = Some pb
            \<and> aid \<in> action_id ` set (actions pb)"
  using update_playbook_action_Inr [of clk pid aid new_status note_text metrics self] assms
  by blast

lemma complete_playbook_snapshot:
  "map_of (customers self) (pb_customer_id pb) = Some customer \<Longrightarrow>
   current_health customer = Some h \<Longrightarrow>
   current_health_score (fst (complete_playbook pb self)) = Some (calculate_composite_score h)"
  by (simp add: complete_playbook_def Let_def case_prod_beta split: option.splits)

lemma update_playbook_action_effect:
  assumes "update_playbook_action clk pid aid new_status note_text metrics self = Inr self1"
  shows "\<exists>pb a pb2.
     map_of (active_playbooks self) pid = Some pb
     \<and> find (\<lambda>a. action_id a = aid) (actions pb) = Some a
     \<and> active_playbooks self1 = dict_set pid pb2 (active_playbooks self)
     \<and> customers self1 = customers self
     \<and> pb_customer_id pb2 = pb_customer_id pb \<and> playbook_type pb2 = playbook_type pb
     \<and> actions pb2 = update_first (\<lambda>a. action_id a = aid)
                        (update_action clk new_status note_text metrics) (actions pb)
     \<and> completion_percentage pb2 = derived_percentage (actions pb2)
     \<and> pb_status pb2 = (if completion_percentage pb2 = 100 then ''completed'' else pb_status pb)
     \<and> (completion_percentage pb2 \<noteq> 100 \<longrightarrow>
          current_health_score pb2 = current_health_score pb
          \<and> outcome_summary pb2 = outcome_summary pb)
     \<and> (completion_percentage pb2 = 100 \<longrightarrow>
          (\<forall>customer h. map_of (customers self) (pb_customer_id pb) = Some customer
             \<and> current_health customer = Some h
             \<longrightarrow> current_health_score pb2 = Some (calculate_composite_score h)))"
proof -
  from update_playbook_action_success [OF assms]
  obtain pb where reg: "map_of (active_playbooks self) pid = Some pb"
    and act: "aid \<in> action_id ` set (actions pb)" by blast
  from act obtain a where found: "find (\<lambda>a. action_id a = aid) (actions pb) = Some a"
    by (cases "find (\<lambda>a. action_id a = aid) (actions pb)") (auto simp: find_None_action)
  define actions1 where "actions1 = update_first (\<lambda>a. action_id a = aid)
                       (update_action clk new_status note_text metrics) (actions pb)"
  define pb1 where "pb1 = pb\<lparr> actions := actions1,
                  completion_percentage := derived_percentage actions1 \<rparr>"
  define self0 where "self0 = logger INFO (UpdatedAction aid pid new_status) self"
  define r where "r = (if completion_percentage pb1 = 100 then complete_playbook pb1 self0
               else (pb1, self0))"
  have res: "self1 = (snd r)\<lparr> active_playbooks := dict_set pid (fst r) (active_playbooks (snd r)) \<rparr>"
    using assms
    unfolding update_playbook_action_Inr_eq [OF reg act] Let_def r_def self0_def pb1_def
      actions1_def
    by simp
  have pb1_simps: "pb_customer_id pb1 = pb_customer_id pb" "playbook_type pb1 = playbook_type pb"
    "actions pb1 = actions1" "completion_percentage pb1 = derived_percentage actions1"
    "pb_status pb1 = pb_status pb" "current_health_score pb1 = current_health_score pb"
    "outcome_summary pb1 = outcome_summary pb"
    by (simp_all add: pb1_def)
  have self0_simps: "customers self0 = customers self"
    "active_playbooks self0 = active_playbooks self"
    by (simp_all add: self0_def)
  show ?thesis
  proof (cases "completion_percentage pb1 = 100")
    case True
    then have r: "r = complete_playbook pb1 self0" by (simp add: r_def)
    have "active_playbooks self1 = dict_set pid (fst r) (active_playbooks self)"
      "customers self1 = customers self"
      by (simp_all add: res r self0_simps)
    moreover have "pb_customer_id (fst r) = pb_customer_id pb"
      "playbook_type (fst r) = playbook_type pb" "actions (fst r) = actions1"
      "completion_percentage (fst r) = derived_percentage actions1"
      "pb_status (fst r) = ''completed''" "completion_percentage (fst r) = 100"
      using True by (simp_all add: r pb1_simps)
    moreover have "\<forall>customer h. map_of (customers self) (pb_customer_id pb) = Some customer
             \<and> current_health customer = Some h
             \<longrightarrow> current_health_score (fst r) = Some (calculate_composite_score h)"
      using complete_playbook_snapshot [of self0 pb1]
      by (simp add: r pb1_simps self0_simps)
    ultimately show ?thesis
      using reg found unfolding actions1_def
      by (intro exI [of _ pb] exI [of _ a] exI [of _ "fst r"]) simp
  next
    case False
    then have r: "r = (pb1, self0)" by (simp add: r_def)
    have "active_playbooks self1 = dict_set pid pb1 (active_playbooks self)"
      "customers self1 = customers self"
      by (simp_all add: res r self0_simps)
    then show ?thesis
      using reg found False pb1_simps unfolding actions1_def
      by (intro exI [of _ pb] exI [of _ a] exI [of _ pb1]) simp
  qed
qed

lemma count_active_update_playbook_action:
  assumes "update_playbook_action clk pid aid new_status note_text metrics self = Inr self1"
  shows "count_active self1 cid ptype \<le> count_active self cid ptype"
proof -
  from update_playbook_action_effect [OF assms]
  obtain pb pb2 where reg: "map_of (active_playbooks self) pid = Some pb"
    and eq: "active_playbooks self1 = dict_set pid pb2 (active_playbooks self)"
    and ids: "pb_customer_id pb2 = pb_customer_id pb" "playbook_type pb2 = playbook_type pb"
    and st: "pb_status pb2 = (if completion_percentage pb2 = 100 then ''completed''
                              else pb_status pb)"
    by blast
  show ?thesis
    unfolding count_active_def eq
    by (rule count_dict_set_replace [OF reg]) (use ids st in \<open>auto split: if_splits\<close>)
qed

lemma count_active_add_customer [simp]:
  "count_active (add_customer customer self) cid ptype = count_active self cid ptype"
  by (simp add: add_customer_def)

lemma count_active_step:
  "count_active (engine_step self call) cid ptype \<le> max 1 (count_active self cid ptype)"
proof (cases call)
  case (AddCustomer customer)
  then show ?thesis by simp
next
  case (UpdateCustomerHealth clk c customer_data)
  then show ?thesis
    using count_active_update_customer_health [of clk c customer_data self _ cid ptype]
    by (cases "update_customer_health clk c customer_data self") auto
next
  case (UpdatePlaybookAction clk pid aid new_status note_text metrics)
  then show ?thesis
    using count_active_update_playbook_action
      [of clk pid aid new_status note_text metrics self _ cid ptype]
    by (cases "update_playbook_action clk pid aid new_status note_text metrics self") auto
qed

lemma count_active_run:
  "count_active (engine_run self calls) cid ptype \<le> max 1 (count_active self cid ptype)"
proof (induction calls arbitrary: self)
  case Nil
  then show ?case by (simp add: engine_run_def)
next
  case (Cons call calls)
  have "count_active (engine_run (engine_step self call) calls) cid ptype
      \<le> max 1 (count_active (engine_step self call) cid ptype)"
    by (rule Cons.IH)
  then show ?case
    using count_active_step [of self call cid ptype]
    by (simp add: engine_run_def)
qed

text \<open>
  C3. Evaluating the triggers twice with the same profile, previous metrics and new
  metrics, from any engine state, leaves for every customer and playbook type at most
  one active playbook, or no more than there were if the state already held several.
  After any sequence of calls of the engine's entry points on a fresh engine, at most
  one playbook per customer and playbook type is active.
\<close>

theorem at_most_one_active_playbook_per_kind:
  "count_active
     (snd (check_playbook_triggers clk2
             (fst (check_playbook_triggers clk1 customer previous_health new_health self))
             previous_health new_health
             (snd (check_playbook_triggers clk1 customer previous_health new_health self))))
     cid ptype \<le> max 1 (count_active self cid ptype)
   \<and> count_active (engine_run engine_init calls) cid ptype \<le> 1"
proof -
  have twice: "count_active
     (snd (check_playbook_triggers clk2
             (fst (check_playbook_triggers clk1 customer previous_health new_health self))
             previous_health new_health
             (snd (check_playbook_triggers clk1 customer previous_health new_health self))))
     cid ptype \<le> max 1 (count_active self cid ptype)"
    by (rule max_one_trans [OF count_active_check count_active_check])
  have "count_active engine_init cid ptype = 0"
    by (simp add: count_active_def engine_init_def)
  with count_active_run [of engine_init calls cid ptype]
  have "count_active (engine_run engine_init calls) cid ptype \<le> 1" by simp
  with twice show ?thesis by blast
qed

subsection \<open>Escalation, completion\<close>

lemma value_realization_total:
  "get_num customer_data ''target_days_to_value'' 30 \<noteq> 0 \<Longrightarrow>
     \<exists>v. calculate_value_realization_score customer_data = Inr v"
  unfolding calculate_value_realization_score_def Let_def
  by (subst if_not_P, assumption, rule exI, rule refl)

lemma health_metrics_total:
  assumes "get_num customer_data ''target_days_to_value'' 30 \<noteq> 0"
  shows "\<exists>m. calculate_health_metrics clk customer customer_data = Inr m"
proof -
  from value_realization_total [OF assms] obtain v
    where v: "calculate_value_realization_score customer_data = Inr v" by blast
  show ?thesis
    unfolding calculate_health_metrics_def Let_def v sum.case
    by (rule exI, rule refl)
qed

text \<open>
  C5. When the health of a registered customer with previous metrics is updated (and the
  calculation does not fail), the profile's escalation flag afterwards is its old value
  or the truth of previous composite - new composite > 15, and the number of escalations
  raised grows by one exactly in that case, whatever the flag or the stored playbooks
  were: a drop of at most 15 points raises none, and every larger drop raises one
  again. Raising the escalation leaves the stored playbooks as they are.
\<close>

theorem executive_escalation_rule:
  assumes "map_of (customers self) cid = Some customer"
    and "current_health customer = Some previous"
    and "get_num customer_data ''target_days_to_value'' 30 \<noteq> 0"
  shows "\<exists>new_health self1 customer1.
     calculate_health_metrics clk customer customer_data = Inr new_health
     \<and> update_customer_health clk cid customer_data self = Inr (new_health, self1)
     \<and> map_of (customers self1) cid = Some customer1
     \<and> executive_escalation_required customer1
         = (executive_escalation_required customer
            \<or> calculate_composite_score previous - calculate_composite_score new_health > 15)
     \<and> escalations_raised self1
         = escalations_raised self
           + (if calculate_composite_score previous - calculate_composite_score new_health > 15
              then 1 else 0)
     \<and> active_playbooks (snd (escalate_to_executive customer reason self))
         = active_playbooks self"
proof -
  from health_metrics_total [OF assms(3)] obtain new_health
    where new: "calculate_health_metrics clk customer customer_data = Inr new_health"
    by blast
  define customer0 where "customer0 = customer\<lparr> current_health := Some new_health,
                        health_history := health_history customer @ [new_health],
                        last_engagement := Some (now clk) \<rparr>"
  define r where "r = check_playbook_triggers clk customer0 (current_health customer)
                        new_health self"
  define self1 where "self1 = logger INFO
                (UpdatedHealth (name (fst r)) (calculate_composite_score new_health)
                   (get_health_tier new_health))
                ((snd r)\<lparr> customers := dict_set cid (fst r) (customers (snd r)) \<rparr>)"
  have res: "update_customer_health clk cid customer_data self = Inr (new_health, self1)"
    unfolding update_customer_health_Inr [OF assms(1) new] Let_def self1_def r_def
      customer0_def by (rule refl)
  have stored: "map_of (customers self1) cid = Some (fst r)"
    by (simp add: self1_def map_of_dict_set)
  have flag: "executive_escalation_required (fst r)
         = (executive_escalation_required customer
            \<or> calculate_composite_score previous - calculate_composite_score new_health > 15)"
    by (simp add: r_def check_playbook_triggers_profile assms(2) customer0_def)
  have raised: "escalations_raised self1
         = escalations_raised self
           + (if calculate_composite_score previous - calculate_composite_score new_health > 15
              then 1 else 0)"
    by (simp add: self1_def escalations_logger r_def check_playbook_triggers_escalations
        assms(2))
  have "active_playbooks (snd (escalate_to_executive customer reason self))
         = active_playbooks self"
    by (simp add: escalate_to_executive_def)
  with new res stored flag raised show ?thesis by blast
qed

lemma flag_step:
  assumes "\<exists>c. map_of (customers self) cid = Some c \<and> executive_escalation_required c"
    and "\<not> re_registers cid call"
  shows "\<exists>c. map_of (customers (engine_step self call)) cid = Some c
             \<and> executive_escalation_required c"
proof (cases call)
  case (AddCustomer customer)
  with assms show ?thesis by (simp add: add_customer_def map_of_dict_set)
next
  case (UpdateCustomerHealth clk c customer_data)
  show ?thesis
  proof (cases "update_customer_health clk c customer_data self")
    case (Inl e)
    with assms UpdateCustomerHealth show ?thesis by simp
  next
    case (Inr r)
    then obtain customer where reg: "map_of (customers self) c = Some customer"
      by (cases "map_of (customers self) c") (auto simp: update_customer_health_def)
    with Inr obtain new_health
      where new: "calculate_health_metrics clk customer customer_data = Inr new_health"
      by (cases "calculate_health_metrics clk customer customer_data")
         (auto simp: update_customer_health_def)
    from Inr have "customers (snd r) =
        dict_set c (fst (check_playbook_triggers clk
             (customer\<lparr> current_health := Some new_health,
                        health_history := health_history customer @ [new_health],
                        last_engagement := Some (now clk) \<rparr>)
             (current_health customer) new_health self)) (customers self)"
      unfolding update_customer_health_Inr [OF reg new] Let_def by auto
    with assms(1) reg Inr UpdateCustomerHealth show ?thesis
      by (auto simp: map_of_dict_set check_playbook_triggers_profile split: option.splits)
  qed
next
  case (UpdatePlaybookAction clk pid aid new_status note_text metrics)
  show ?thesis
  proof (cases "update_playbook_action clk pid aid new_status note_text metrics self")
    case (Inl e)
    with assms UpdatePlaybookAction show ?thesis by simp
  next
    case (Inr self1)
    from update_playbook_action_effect [OF Inr] have "customers self1 = customers self"
      by blast
    with assms Inr UpdatePlaybookAction show ?thesis by simp
  qed
qed

text \<open>
  C10. Once the escalation flag of a registered customer is set, it is still set after
  any sequence of health updates and action updates (and of registrations of other
  customers), whatever scores the updates produce.
\<close>

theorem escalation_flag_never_reset:
  assumes "map_of (customers self) cid = Some customer"
    and "executive_escalation_required customer"
    and "\<not> list_ex (re_registers cid) calls"
  shows "\<exists>customer1. map_of (customers (engine_run self calls)) cid = Some customer1
                   \<and> executive_escalation_required customer1"
proof -
  have "\<exists>c. map_of (customers self) cid = Some c \<and> executive_escalation_required c
        \<Longrightarrow> \<not> list_ex (re_registers cid) calls
        \<Longrightarrow> \<exists>c. map_of (customers (engine_run self calls)) cid = Some c
                 \<and> executive_escalation_required c"
  proof (induction calls arbitrary: self)
    case Nil
    then show ?case by (simp add: engine_run_def)
  next
    case (Cons call calls)
    from Cons.prems have "\<exists>c. map_of (customers (engine_step self call)) cid = Some c
             \<and> executive_escalation_required c"
      by (intro flag_step) simp_all
    from Cons.IH [OF this] Cons.prems(2) show ?case by (simp add: engine_run_def)
  qed
  with assms show ?thesis by blast
qed


lemma length_update_first [simp]: "length (update_first P f xs) = length xs"
  by (induction xs) auto

lemma status_update_action [simp]:
  "status (update_action clk new_status note_text metrics a) = new_status"
  by (simp add: update_action_def Let_def split: option.splits)

lemma count_update_first_mono:
  "find P xs = Some a \<Longrightarrow> (Q a \<Longrightarrow> Q (f a)) \<Longrightarrow>
     length (filter Q xs) \<le> length (filter Q (update_first P f xs))"
  by (induction xs) (auto split: if_splits)

lemma all_completed_iff_count:
  "length (filter Q xs) = length xs \<longleftrightarrow> list_all Q xs"
proof (induction xs)
  case Nil
  then show ?case by simp
next
  case (Cons x xs)
  have "length (filter Q xs) \<noteq> Suc (length xs)"
    by (metis Suc_n_not_le_n length_filter_le)
  with Cons show ?case by auto
qed

lemma derived_percentage_full:
  "acts \<noteq> [] \<Longrightarrow>
     derived_percentage acts = 100 \<longleftrightarrow> list_all (\<lambda>a. status a = COMPLETED) acts"
proof -
  assume "acts \<noteq> []"
  then have pos: "real (length acts) > 0" by simp
  have "derived_percentage acts = 100 \<longleftrightarrow>
      real (length (filter (\<lambda>a. status a = COMPLETED) acts)) = real (length acts)"
    using pos by (simp add: derived_percentage_def field_simps)
  also have "\<dots> \<longleftrightarrow> length (filter (\<lambda>a. status a = COMPLETED) acts) = length acts"
    by simp
  also have "\<dots> \<longleftrightarrow> list_all (\<lambda>a. status a = COMPLETED) acts"
    by (rule all_completed_iff_count)
  finally show ?thesis .
qed

lemma derived_percentage_mono:
  "length xs = length ys \<Longrightarrow>
   length (filter (\<lambda>a. status a = COMPLETED) xs) \<le> length (filter (\<lambda>a. status a = COMPLETED) ys)
   \<Longrightarrow> derived_percentage xs \<le> derived_percentage ys"
  by (simp add: derived_percentage_def divide_right_mono)

lemma forward_move_not_completed: "forward_move old_status new_status \<Longrightarrow> old_status \<noteq> COMPLETED"
  by (cases old_status; cases new_status) simp_all

lemma find_Some_nonempty: "find P xs = Some a \<Longrightarrow> xs \<noteq> []"
  by auto

lemma update_playbook_action_total:
  "map_of (active_playbooks self) pid = Some pb \<Longrightarrow>
   find (\<lambda>a. action_id a = aid) (actions pb) = Some a \<Longrightarrow>
   \<exists>self1. update_playbook_action clk pid aid new_status note_text metrics self = Inr self1"
  by (simp add: update_playbook_action_def Let_def case_prod_beta)

text \<open>
  C4. An action update on a stored playbook that has the action succeeds, and afterwards
  the stored percentage is the derived one: completed actions over all actions, times 100.
  It is 100 exactly when every action is completed; an update that moves the action
  forward along Pending, InProgress, Completed does not lower it; the status becomes
  completed exactly when the percentage is 100 and is otherwise unchanged; below 100 the
  current health score and the outcome summary are unchanged, and at 100 the current
  health score is the composite score of the customer's current health.
\<close>

theorem completion_percentage_bookkeeping:
  assumes "map_of (active_playbooks self) pid = Some pb"
    and "find (\<lambda>a. action_id a = aid) (actions pb) = Some a"
  shows "\<exists>self1 pb1.
     update_playbook_action clk pid aid new_status note_text metrics self = Inr self1
     \<and> map_of (active_playbooks self1) pid = Some pb1
     \<and> completion_percentage pb1 = derived_percentage (actions pb1)
     \<and> (completion_percentage pb1 = 100
          \<longleftrightarrow> list_all (\<lambda>a. status a = COMPLETED) (actions pb1))
     \<and> (forward_move (status a) new_status
          \<longrightarrow> derived_percentage (actions pb) \<le> completion_percentage pb1)
     \<and> pb_status pb1 = (if completion_percentage pb1 = 100 then ''completed'' else pb_status pb)
     \<and> (completion_percentage pb1 \<noteq> 100 \<longrightarrow>
          current_health_score pb1 = current_health_score pb
          \<and> outcome_summary pb1 = outcome_summary pb)
     \<and> (completion_percentage pb1 = 100 \<longrightarrow>
          (\<forall>customer h. map_of (customers self) (pb_customer_id pb) = Some customer
             \<and> current_health customer = Some h
             \<longrightarrow> current_health_score pb1 = Some (calculate_composite_score h)))"
proof -
  from update_playbook_action_total [OF assms] obtain self1
    where ok: "update_playbook_action clk pid aid new_status note_text metrics self = Inr self1"
    by blast
  from update_playbook_action_effect [OF ok]
  obtain pb' a' pb2 where
    reg': "map_of (active_playbooks self) pid = Some pb'"
    and stored: "active_playbooks self1 = dict_set pid pb2 (active_playbooks self)"
    and acts': "actions pb2 = update_first (\<lambda>a. action_id a = aid)
                        (update_action clk new_status note_text metrics) (actions pb')"
    and pct: "completion_percentage pb2 = derived_percentage (actions pb2)"
    and st': "pb_status pb2 = (if completion_percentage pb2 = 100 then ''completed''
                              else pb_status pb')"
    and keep': "completion_percentage pb2 \<noteq> 100 \<longrightarrow>
          current_health_score pb2 = current_health_score pb'
          \<and> outcome_summary pb2 = outcome_summary pb'"
    and snap': "completion_percentage pb2 = 100 \<longrightarrow>
          (\<forall>customer h. map_of (customers self) (pb_customer_id pb') = Some customer
             \<and> current_health customer = Some h
             \<longrightarrow> current_health_score pb2 = Some (calculate_composite_score h))"
    by blast
  from reg' assms(1) have same: "pb' = pb" by simp
  note acts = acts' [unfolded same] and st = st' [unfolded same]
    and keep = keep' [unfolded same] and snap = snap' [unfolded same]
  note found = assms(2)
  have lookup: "map_of (active_playbooks self1) pid = Some pb2"
    by (simp add: stored map_of_dict_set)
  have "actions pb2 \<noteq> []"
    using find_Some_nonempty [OF found] acts
    by (metis length_0_conv length_update_first)
  then have full: "completion_percentage pb2 = 100
          \<longleftrightarrow> list_all (\<lambda>a. status a = COMPLETED) (actions pb2)"
    by (simp add: pct derived_percentage_full)
  have mono: "forward_move (status a) new_status
          \<longrightarrow> derived_percentage (actions pb) \<le> completion_percentage pb2"
  proof
    assume "forward_move (status a) new_status"
    then have "status a \<noteq> COMPLETED" by (rule forward_move_not_completed)
    then have "length (filter (\<lambda>a. status a = COMPLETED) (actions pb))
        \<le> length (filter (\<lambda>a. status a = COMPLETED) (actions pb2))"
      unfolding acts by (intro count_update_first_mono [OF found]) simp
    then show "derived_percentage (actions pb) \<le> completion_percentage pb2"
      unfolding pct by (intro derived_percentage_mono) (simp_all add: acts)
  qed
  from ok lookup pct full mono st keep snap show ?thesis by blast
qed



text \<open>
  The flag of an escalated customer after a health update with the demonstration's
  healthy signals and an action update.
\<close>

theorem escalation_flag_never_reset_witness:
  "\<exists>customer1.
     map_of (customers (engine_run escalated_engine
        [UpdateCustomerHealth sample_clock ''CUST-002'' business_data,
         UpdatePlaybookAction sample_clock ''ER-CUST-002-20250101'' ''er_001'' COMPLETED
           ''done'' None])) ''CUST-002'' = Some customer1
     \<and> executive_escalation_required customer1"
  using escalation_flag_never_reset
    [of escalated_engine "''CUST-002''"
        "tracked_customer\<lparr> executive_escalation_required := True \<rparr>"
        "[UpdateCustomerHealth sample_clock ''CUST-002'' business_data,
          UpdatePlaybookAction sample_clock ''ER-CUST-002-20250101'' ''er_001'' COMPLETED
            ''done'' None]"]
  by (simp add: escalated_engine_def)

text \<open>
  Completing the second action of a fresh engagement revival playbook.
\<close>

theorem completion_percentage_bookkeeping_witness:
  "\<exists>self1 pb1.
     update_playbook_action sample_clock ''ER-CUST-002-20250101'' ''er_002'' COMPLETED
       ''done'' None revival_engine = Inr self1
     \<and> map_of (active_playbooks self1) ''ER-CUST-002-20250101'' = Some pb1
     \<and> completion_percentage pb1 = derived_percentage (actions pb1)
     \<and> 0 \<le> completion_percentage pb1
     \<and> pb_status pb1 = (if completion_percentage pb1 = 100 then ''completed'' else ''active'')"
proof -
  let ?pb = "create_engagement_revival_playbook sample_clock tracked_customer"
  have h1: "map_of (active_playbooks revival_engine) ''ER-CUST-002-20250101'' = Some ?pb"
    by (simp add: revival_engine_def)
  have h2: "find (\<lambda>a. action_id a = ''er_002'') (actions ?pb) = Some (actions ?pb ! 1)"
    by (simp add: create_engagement_revival_playbook_def new_action_def)
  have h3: "forward_move (status (actions ?pb ! 1)) COMPLETED"
    by (simp add: create_engagement_revival_playbook_def new_action_def)
  have h4: "derived_percentage (actions ?pb) = 0"
    by (simp add: create_engagement_revival_playbook_def new_action_def derived_percentage_def)
  have h5: "pb_status ?pb = ''active''"
    by (simp add: create_engagement_revival_playbook_def)
  from completion_percentage_bookkeeping [OF h1 h2, of sample_clock COMPLETED "''done''" None]
  obtain self1 pb1 where
    "update_playbook_action sample_clock ''ER-CUST-002-20250101'' ''er_002'' COMPLETED
       ''done'' None revival_engine = Inr self1"
    "map_of (active_playbooks self1) ''ER-CUST-002-20250101'' = Some pb1"
    "completion_percentage pb1 = derived_percentage (actions pb1)"
    "forward_move (status (actions ?pb ! 1)) COMPLETED
       \<longrightarrow> derived_percentage (actions ?pb) \<le> completion_percentage pb1"
    "pb_status pb1 = (if completion_percentage pb1 = 100 then ''completed'' else pb_status ?pb)"
    by blast
  with h3 h4 h5 show ?thesis by (intro exI [of _ self1] exI [of _ pb1]) simp
qed


text \<open>
  The rule at a customer tracked at composite 70 whose update carries no signals: the
  new composite is 347/12, the flag is set and one escalation is raised.
\<close>

theorem executive_escalation_rule_witness:
  "\<exists>new_health self1 customer1.
     update_customer_health sample_clock ''CUST-002'' Map.empty tracked_engine
       = Inr (new_health, self1)
     \<and> calculate_composite_score sample_previous - calculate_composite_score new_health > 15
     \<and> map_of (customers self1) ''CUST-002'' = Some customer1
     \<and> executive_escalation_required customer1
     \<and> escalations_raised self1 = 1"
proof -
  have h1: "map_of (customers tracked_engine) ''CUST-002'' = Some tracked_customer"
    by (simp add: tracked_engine_def)
  have h2: "current_health tracked_customer = Some sample_previous"
    by (simp add: tracked_customer_def)
  have h3: "get_num Map.empty ''target_days_to_value'' 30 \<noteq> 0"
    by (simp add: get_num_def)
  have m: "calculate_health_metrics sample_clock tracked_customer Map.empty =
      Inr \<lparr> engagement_score = 10, value_realization_score = 0,
            relationship_health_score = 185 / 3, risk_indicators_score = 0,
            calculated_at = 0 \<rparr>"
    by (simp add: calculate_health_metrics_def calculate_value_realization_score_def
        calculate_engagement_score_def calculate_relationship_health_score_def
        calculate_risk_indicators_score_def get_num_def get_truthy_def Let_def
        tracked_customer_def business_customer_def sample_clock_def)
  have before: "\<not> executive_escalation_required tracked_customer"
    "escalations_raised tracked_engine = 0"
    by (simp_all add: tracked_customer_def business_customer_def tracked_engine_def
        escalations_raised_def)
  from executive_escalation_rule [OF h1 h2 h3, of sample_clock "''significant_health_drop''"]
  obtain new_health self1 customer1 where
    new: "calculate_health_metrics sample_clock tracked_customer Map.empty = Inr new_health"
    and res: "update_customer_health sample_clock ''CUST-002'' Map.empty tracked_engine
       = Inr (new_health, self1)"
    and stored: "map_of (customers self1) ''CUST-002'' = Some customer1"
    and flag: "executive_escalation_required customer1
         = (executive_escalation_required tracked_customer
            \<or> calculate_composite_score sample_previous
                - calculate_composite_score new_health > 15)"
    and raised: "escalations_raised self1
         = escalations_raised tracked_engine
           + (if calculate_composite_score sample_previous
                 - calculate_composite_score new_health > 15
              then 1 else 0)"
    by blast
  from new m have "new_health = \<lparr> engagement_score = 10, value_realization_score = 0,
            relationship_health_score = 185 / 3, risk_indicators_score = 0,
            calculated_at = 0 \<rparr>" by simp
  then have drop: "calculate_composite_score sample_previous
      - calculate_composite_score new_health > 15"
    by (simp add: calculate_composite_score_def sample_previous_def Let_def)
  from res drop stored flag raised before show ?thesis
    by (intro exI [of _ new_health] exI [of _ self1] exI [of _ customer1]) simp
qed

subsection \<open>Recovery report\<close>

lemma composite_metrics_at: "0 \<le> s \<Longrightarrow> s \<le> 100 \<Longrightarrow> calculate_composite_score (metrics_at s) = s"
  by (simp add: calculate_composite_score_def metrics_at_def Let_def)

lemma rint_of_int [simp]: "rint (of_int n) = n"
  by (simp add: rint_def Let_def)

lemma round2_numeral: "round2 0 = 0" "round2 10 = 10"
proof -
  have "rint (0 * 100) = 0" using rint_of_int [of 0] by simp
  then show "round2 0 = 0" by (simp add: round2_def)
  have "rint (10 * 100) = 1000" using rint_of_int [of 1000] by simp
  then show "round2 10 = 10" by (simp add: round2_def)
qed

text \<open>
  C9, as stated, fails: for a customer that is not post-incident and went from composite
  50 to 60 over two history entries, the report gives the average improvement 0 where
  the mean over every customer with at least 2 history entries is 10.
\<close>

theorem average_improvement_counterexample:
  "average_health_improvement
     (recovery_metrics (generate_recovery_report sample_clock None steady_engine)) = 0
   \<and> spec_average_improvement (map snd (customers steady_engine)) = 10"
  by (simp add: generate_recovery_report_def selected_customers_def report_step_def
      steady_engine_def spec_average_improvement_def mean_def Let_def composite_metrics_at
      round2_numeral)

lemma report_step_improvements:
  "snd (snd (foldl report_step (d, p, imps) cs))
     = imps @ map improvement_of (filter counts_for_average cs)"
proof (induction cs arbitrary: d p imps)
  case Nil
  then show ?case by simp
next
  case (Cons c cs)
  obtain d1 p1 imps1 where step: "report_step (d, p, imps) c = (d1, p1, imps1)"
    by (cases "report_step (d, p, imps) c") auto
  then have "imps1 = imps @ map improvement_of (filter counts_for_average [c])"
    by (auto simp: report_step_def improvement_of_def counts_for_average_def Let_def
        split: option.splits if_splits)
  with Cons.IH [of d1 p1 imps1] step show ?case by simp
qed

lemma report_average:
  "average_health_improvement (recovery_metrics (generate_recovery_report clk cid self))
     = round2 (let improvements =
                     map improvement_of (filter counts_for_average (selected_customers self cid))
               in if improvements = [] then 0 else mean improvements)"
  using report_step_improvements [of "\<lambda>tier. 0" 0 "[]" "selected_customers self cid"]
  by (simp add: generate_recovery_report_def Let_def case_prod_beta)

lemma map_of_foldl_entries:
  "map_of (foldl (\<lambda>eff t. case f t of None \<Rightarrow> eff | Some e \<Rightarrow> dict_set t e eff) acc ts) k
     = (if k \<in> set ts then (case f k of None \<Rightarrow> map_of acc k | Some e \<Rightarrow> Some e)
        else map_of acc k)"
  by (induction ts arbitrary: acc) (auto simp: map_of_dict_set split: option.splits)

lemma report_effectiveness:
  "map_of (playbook_effectiveness (generate_recovery_report clk cid self)) ptype
     = effectiveness_entry self ptype"
proof -
  have "ptype \<in> set [POST_INCIDENT_RECOVERY, ENGAGEMENT_REVIVAL, VALUE_ACCELERATION,
      CHURN_PREVENTION, TRUST_REBUILDING]"
    by (cases ptype) simp_all
  then have "map_of (calculate_playbook_effectiveness self) ptype = effectiveness_entry self ptype"
    unfolding calculate_playbook_effectiveness_def map_of_foldl_entries
    by (simp split: option.splits)
  then show ?thesis
    by (simp add: generate_recovery_report_def Let_def case_prod_beta)
qed

lemma successful_is_improved:
  "list_all scores_nonzero pbs \<Longrightarrow> filter is_successful pbs = filter improved pbs"
  by (induction pbs)
     (auto simp: is_successful_def improved_def scores_nonzero_def split: option.splits)

lemma effectiveness_entry_success_rate:
  "playbooks_of_type self ptype \<noteq> [] \<Longrightarrow>
   \<exists>e. effectiveness_entry self ptype = Some e
      \<and> success_rate e =
          (if completed_of_type self ptype = [] then 0
           else real (length (filter is_successful (completed_of_type self ptype)))
                / real (length (completed_of_type self ptype)))"
  unfolding effectiveness_entry_def playbooks_of_type_def completed_of_type_def Let_def
  by (simp del: filter_filter filter_map)

text \<open>
  C9, amended. The reported average improvement is, rounded to two decimals, the mean
  of current composite minus first composite over the selected customers that have a
  current health, are post-incident and have at least 2 history entries, and 0 when
  there are none. A playbook type with no stored playbook has no entry in the
  effectiveness table; a type with one has an entry whose success rate is successful
  over completed, 0 when none is completed, where (no completed playbook of the type
  having a score of exactly 0) successful means completed with a current health score
  greater than the baseline.
\<close>

theorem recovery_report_aggregates:
  "average_health_improvement (recovery_metrics (generate_recovery_report clk cid self))
     = round2 (let improvements =
                     map improvement_of (filter counts_for_average (selected_customers self cid))
               in if improvements = [] then 0 else mean improvements)
   \<and> (playbooks_of_type self ptype = [] \<longrightarrow>
        map_of (playbook_effectiveness (generate_recovery_report clk cid self)) ptype = None)
   \<and> (playbooks_of_type self ptype \<noteq> [] \<longrightarrow>
        (\<exists>e. map_of (playbook_effectiveness (generate_recovery_report clk cid self)) ptype
               = Some e
           \<and> (list_all scores_nonzero (completed_of_type self ptype) \<longrightarrow>
                success_rate e =
                  (if completed_of_type self ptype = [] then 0
                   else real (length (filter improved (completed_of_type self ptype)))
                        / real (length (completed_of_type self ptype))))))"
proof -
  have none: "playbooks_of_type self ptype = [] \<longrightarrow>
        map_of (playbook_effectiveness (generate_recovery_report clk cid self)) ptype = None"
    by (simp add: report_effectiveness effectiveness_entry_def playbooks_of_type_def Let_def)
  have some: "playbooks_of_type self ptype \<noteq> [] \<longrightarrow>
        (\<exists>e. map_of (playbook_effectiveness (generate_recovery_report clk cid self)) ptype
               = Some e
           \<and> (list_all scores_nonzero (completed_of_type self ptype) \<longrightarrow>
                success_rate e =
                  (if completed_of_type self ptype = [] then 0
                   else real (length (filter improved (completed_of_type self ptype)))
                        / real (length (completed_of_type self ptype)))))"
    using effectiveness_entry_success_rate [of self ptype]
    by (auto simp: report_effectiveness successful_is_improved)
  from report_average none some show ?thesis by blast
qed


text \<open>
  The report of the engine with one post-incident customer that went from 50 to 60 and
  one completed, improved engagement revival playbook.
\<close>

theorem recovery_report_aggregates_witness:
  "average_health_improvement
     (recovery_metrics (generate_recovery_report sample_clock None finished_engine)) = 10
   \<and> (\<exists>e. map_of (playbook_effectiveness
                     (generate_recovery_report sample_clock None finished_engine))
              ENGAGEMENT_REVIVAL = Some e
          \<and> success_rate e = 1)"
proof -
  have sel: "map improvement_of
      (filter counts_for_average (selected_customers finished_engine None)) = [10]"
    by (simp add: selected_customers_def finished_engine_def counts_for_average_def
        improvement_of_def business_customer_def composite_metrics_at)
  have pbs: "playbooks_of_type finished_engine ENGAGEMENT_REVIVAL \<noteq> []"
    by (simp add: playbooks_of_type_def finished_engine_def)
  have fin: "list_all scores_nonzero (completed_of_type finished_engine ENGAGEMENT_REVIVAL)"
    "completed_of_type finished_engine ENGAGEMENT_REVIVAL \<noteq> []"
    "length (filter improved (completed_of_type finished_engine ENGAGEMENT_REVIVAL)) = 1"
    "length (completed_of_type finished_engine ENGAGEMENT_REVIVAL) = 1"
    by (simp_all add: completed_of_type_def playbooks_of_type_def finished_engine_def
        scores_nonzero_def improved_def)
  from recovery_report_aggregates [of sample_clock None finished_engine ENGAGEMENT_REVIVAL]
    pbs fin
  show ?thesis by (simp add: sel mean_def round2_numeral)
qed

text \<open>
  A baseline of exactly 0 counts as missing in the source's truth test: such a playbook
  is not counted as successful although its final score is greater than its baseline.
\<close>

lemma zero_baseline_is_not_successful:
  "\<not> is_successful (pb\<lparr> baseline_health_score := Some 0, current_health_score := Some 50 \<rparr>)
   \<and> improved (pb\<lparr> baseline_health_score := Some 0, current_health_score := Some 50 \<rparr>)"
  by (simp add: is_successful_def improved_def)

subsection \<open>Further properties of the calculators, the lifecycle and the triggers\<close>

lemma min_hundred: "min (100.0::real) x \<le> 100"
  by simp

lemma value_realization_zero_target:
  "get_num customer_data ''target_days_to_value'' 30 = 0 \<Longrightarrow>
     calculate_value_realization_score customer_data = Inl ZeroDivisionError"
  unfolding calculate_value_realization_score_def Let_def by (rule if_P)

lemma value_realization_bounded:
  "get_num customer_data ''target_days_to_value'' 30 \<noteq> 0 \<Longrightarrow>
     \<exists>v. calculate_value_realization_score customer_data = Inr v \<and> v \<le> 100"
  unfolding calculate_value_realization_score_def Let_def
  by (subst if_not_P, assumption, rule exI, rule conjI, rule refl, rule min_hundred)

text \<open>
  Every sub-score calculator returns at most 100, and the value realization calculator
  raises nothing but ZeroDivisionError.
\<close>

theorem sub_scores_at_most_100:
  "calculate_engagement_score customer_data \<le> 100
   \<and> calculate_relationship_health_score customer_data \<le> 100
   \<and> calculate_risk_indicators_score customer_data \<le> 100
   \<and> (case calculate_value_realization_score customer_data of
         Inl e \<Rightarrow> e = ZeroDivisionError
       | Inr v \<Rightarrow> v \<le> 100)"
proof -
  have e: "calculate_engagement_score customer_data \<le> 100"
    unfolding calculate_engagement_score_def Let_def by (rule min_hundred)
  have r: "calculate_relationship_health_score customer_data \<le> 100"
    unfolding calculate_relationship_health_score_def Let_def by (rule min_hundred)
  have k: "calculate_risk_indicators_score customer_data \<le> 100"
    unfolding calculate_risk_indicators_score_def Let_def by (rule min_hundred)
  have v: "case calculate_value_realization_score customer_data of
         Inl e \<Rightarrow> e = ZeroDivisionError
       | Inr v \<Rightarrow> v \<le> 100"
  proof (cases "get_num customer_data ''target_days_to_value'' 30 = 0")
    case True
    from value_realization_zero_target [OF True] show ?thesis by simp
  next
    case False
    from value_realization_bounded [OF False] show ?thesis by auto
  qed
  from e r k v show ?thesis by blast
qed

text \<open>
  The value realization calculator, and with it the calculation of the health metrics,
  raises ZeroDivisionError exactly when the target of days to value is 0.
\<close>

theorem value_realization_raises_iff_zero_target:
  "(calculate_value_realization_score customer_data = Inl ZeroDivisionError
      \<longleftrightarrow> get_num customer_data ''target_days_to_value'' 30 = 0)
   \<and> (calculate_health_metrics clk customer customer_data = Inl ZeroDivisionError
      \<longleftrightarrow> get_num customer_data ''target_days_to_value'' 30 = 0)"
proof (cases "get_num customer_data ''target_days_to_value'' 30 = 0")
  case True
  note v = value_realization_zero_target [OF True]
  have "calculate_health_metrics clk customer customer_data = Inl ZeroDivisionError"
    unfolding calculate_health_metrics_def Let_def v by (simp only: sum.case)
  with v True show ?thesis by simp
next
  case False
  from value_realization_total [OF False] health_metrics_total [OF False, of clk customer]
  show ?thesis using False by auto
qed

lemma percentages_step:
  assumes "map_of (active_playbooks self) pid = Some pb"
    and "find (\<lambda>a. action_id a = aid) (actions pb) = Some a"
    and "forward_move (status a) new_status"
  shows "\<exists>pb1. map_of (active_playbooks
            (engine_step self (UpdatePlaybookAction clk pid aid new_status note_text metrics)))
            pid = Some pb1
         \<and> completion_percentage pb1 = derived_percentage (actions pb1)
         \<and> derived_percentage (actions pb) \<le> completion_percentage pb1"
proof -
  from update_playbook_action_total [OF assms(1,2)] obtain self1
    where ok: "update_playbook_action clk pid aid new_status note_text metrics self = Inr self1"
    by blast
  from update_playbook_action_effect [OF ok]
  obtain pb' a' pb2 where
    reg': "map_of (active_playbooks self) pid = Some pb'"
    and stored: "active_playbooks self1 = dict_set pid pb2 (active_playbooks self)"
    and acts': "actions pb2 = update_first (\<lambda>a. action_id a = aid)
                        (update_action clk new_status note_text metrics) (actions pb')"
    and pct: "completion_percentage pb2 = derived_percentage (actions pb2)"
    by blast
  from reg' assms(1) have same: "pb' = pb" by simp
  note acts = acts' [unfolded same]
  have lookup: "map_of (active_playbooks self1) pid = Some pb2"
    by (simp add: stored map_of_dict_set)
  from assms(3) have "status a \<noteq> COMPLETED" by (rule forward_move_not_completed)
  then have "length (filter (\<lambda>a. status a = COMPLETED) (actions pb))
        \<le> length (filter (\<lambda>a. status a = COMPLETED) (actions pb2))"
    unfolding acts by (intro count_update_first_mono [OF assms(2)]) simp
  then have "derived_percentage (actions pb) \<le> completion_percentage pb2"
    unfolding pct by (intro derived_percentage_mono) (simp_all add: acts)
  with ok lookup pct show ?thesis by simp
qed

lemma percentages_bounded_below:
  "all_forward self pid us \<Longrightarrow> map_of (active_playbooks self) pid = Some pb \<Longrightarrow>
     sorted (derived_percentage (actions pb) # percentages self pid us)
     \<and> length (percentages self pid us) = length us"
proof (induction us arbitrary: self pb)
  case Nil
  then show ?case by simp
next
  case (Cons u us)
  obtain clk aid new_status note_text metrics
    where u: "u = (clk, aid, new_status, note_text, metrics)"
    by (cases u) auto
  from Cons.prems obtain a where
    found: "find (\<lambda>a. action_id a = aid) (actions pb) = Some a"
    and fwd: "forward_move (status a) new_status"
    and rest: "all_forward (engine_step self (as_call pid u)) pid us"
    by (auto simp: u split: option.splits)
  from percentages_step [OF Cons.prems(2) found fwd, of clk note_text metrics]
  obtain pb1 where
    next_pb: "map_of (active_playbooks (engine_step self (as_call pid u))) pid = Some pb1"
    and pct: "completion_percentage pb1 = derived_percentage (actions pb1)"
    and le: "derived_percentage (actions pb) \<le> completion_percentage pb1"
    by (auto simp: u)
  from Cons.IH [OF rest next_pb]
  have "sorted (completion_percentage pb1
                # percentages (engine_step self (as_call pid u)) pid us)"
    and "length (percentages (engine_step self (as_call pid u)) pid us) = length us"
    by (simp_all add: pct)
  with le next_pb show ?case by (auto simp: Let_def)
qed

text \<open>
  Along any sequence of action updates on one playbook that all succeed and move their
  action forward, starting from a playbook whose stored percentage is the derived one,
  the stored percentages never decrease.
\<close>

theorem completion_percentage_monotone:
  assumes "all_forward self pid us"
    and "map_of (active_playbooks self) pid = Some pb"
    and "completion_percentage pb = derived_percentage (actions pb)"
  shows "sorted (completion_percentage pb # percentages self pid us)
         \<and> length (percentages self pid us) = length us"
  using percentages_bounded_below [OF assms(1,2)] assms(3) by simp

text \<open>Three forward updates on a fresh engagement revival playbook.\<close>

theorem completion_percentage_monotone_witness:
  "sorted (0 # percentages revival_engine ''ER-CUST-002-20250101''
                 [(sample_clock, ''er_002'', IN_PROGRESS, ''started'', None),
                  (sample_clock, ''er_001'', COMPLETED, ''done'', None),
                  (sample_clock, ''er_002'', COMPLETED, ''done'', None)])
   \<and> length (percentages revival_engine ''ER-CUST-002-20250101''
                 [(sample_clock, ''er_002'', IN_PROGRESS, ''started'', None),
                  (sample_clock, ''er_001'', COMPLETED, ''done'', None),
                  (sample_clock, ''er_002'', COMPLETED, ''done'', None)]) = 3"
proof -
  let ?pb = "create_engagement_revival_playbook sample_clock tracked_customer"
  let ?us = "[(sample_clock, ''er_002'', IN_PROGRESS, ''started'', None),
              (sample_clock, ''er_001'', COMPLETED, ''done'', None),
              (sample_clock, ''er_002'', COMPLETED, ''done'', None)]"
  have h2: "map_of (active_playbooks revival_engine) ''ER-CUST-002-20250101'' = Some ?pb"
    by (simp add: revival_engine_def)
  have h3: "completion_percentage ?pb = derived_percentage (actions ?pb)"
    "completion_percentage ?pb = 0"
    by (simp_all add: create_engagement_revival_playbook_def new_action_def
        derived_percentage_def)
  have h1: "all_forward revival_engine ''ER-CUST-002-20250101'' ?us"
    by (simp add: revival_engine_def tracked_engine_def update_playbook_action_def
        create_engagement_revival_playbook_def new_action_def update_action_def logger_def
        Let_def)
  from completion_percentage_monotone [OF h1 h2 h3(1)] h3(2) show ?thesis by simp
qed


lemma with_baseline_fields [simp]:
  "playbook_id (with_baseline customer pb) = playbook_id pb"
  "pb_customer_id (with_baseline customer pb) = pb_customer_id pb"
  "playbook_type (with_baseline customer pb) = playbook_type pb"
  "pb_status (with_baseline customer pb) = pb_status pb"
  by (simp_all add: with_baseline_def split: option.splits)

lemma created_ids [simp]:
  "playbook_id (create_post_incident_recovery_playbook clk customer)
     = ''PIR-'' @ customer_id customer @ ''-'' @ today clk"
  "playbook_id (create_engagement_revival_playbook clk customer)
     = ''ER-'' @ customer_id customer @ ''-'' @ today clk"
  by (simp_all add: create_post_incident_recovery_playbook_def
      create_engagement_revival_playbook_def)

lemma trigger_post_incident:
  "active_playbooks (trigger_playbook clk customer POST_INCIDENT_RECOVERY self)
     = dict_set (''PIR-'' @ customer_id customer @ ''-'' @ today clk)
         (with_baseline customer (create_post_incident_recovery_playbook clk customer))
         (active_playbooks self)"
  by (cases "current_health customer")
     (simp_all add: trigger_playbook_def notify_playbook_assignment_def Let_def
        with_baseline_def)

lemma trigger_engagement_revival:
  "active_playbooks (trigger_playbook clk customer ENGAGEMENT_REVIVAL self)
     = dict_set (''ER-'' @ customer_id customer @ ''-'' @ today clk)
         (with_baseline customer (create_engagement_revival_playbook clk customer))
         (active_playbooks self)"
  by (cases "current_health customer")
     (simp_all add: trigger_playbook_def notify_playbook_assignment_def Let_def
        with_baseline_def)

lemma ensure_unimplemented [simp]:
  "pt \<noteq> POST_INCIDENT_RECOVERY \<Longrightarrow> pt \<noteq> ENGAGEMENT_REVIVAL \<Longrightarrow>
   active_playbooks (ensure_playbook clk customer pt cond self) = active_playbooks self"
  by (simp add: ensure_playbook_def trigger_playbook_unimplemented)

text \<open>
  On an engine without playbooks, evaluating the triggers for a post-incident customer
  that needs trust rebuilding and whose engagement score is below 60 stores exactly a
  post-incident recovery playbook and an engagement revival playbook, one of each.
\<close>

theorem first_evaluation_triggers_both:
  assumes "is_post_incident customer" and "trust_rebuilding_required customer"
    and "engagement_score new_health < 60" and "active_playbooks self = []"
  shows "map snd (active_playbooks
           (snd (check_playbook_triggers clk customer previous_health new_health self)))
         = [with_baseline customer (create_post_incident_recovery_playbook clk customer),
            with_baseline customer (create_engagement_revival_playbook clk customer)]
     \<and> count_active
           (snd (check_playbook_triggers clk customer previous_health new_health self))
           (customer_id customer) POST_INCIDENT_RECOVERY = 1
     \<and> count_active
           (snd (check_playbook_triggers clk customer previous_health new_health self))
           (customer_id customer) ENGAGEMENT_REVIVAL = 1"
proof -
  define s1 where "s1 = ensure_playbook clk customer POST_INCIDENT_RECOVERY
      (is_post_incident customer \<and> trust_rebuilding_required customer) self"
  define s2 where "s2 = ensure_playbook clk customer CHURN_PREVENTION
      (get_health_tier new_health = CRITICAL \<or> get_health_tier new_health = RED_ALERT) s1"
  define s3 where "s3 = ensure_playbook clk customer ENGAGEMENT_REVIVAL
      (engagement_score new_health < 60) s2"
  define s4 where "s4 = ensure_playbook clk customer VALUE_ACCELERATION
      (value_realization_score new_health < 50) s3"
  have a1: "active_playbooks s1 =
      [(''PIR-'' @ customer_id customer @ ''-'' @ today clk,
        with_baseline customer (create_post_incident_recovery_playbook clk customer))]"
    using assms(1,2,4)
    by (simp add: s1_def ensure_playbook_def has_active_playbook_def trigger_post_incident)
  have a2: "active_playbooks s2 = active_playbooks s1"
    by (simp add: s2_def)
  have a3: "active_playbooks s3 =
      [(''PIR-'' @ customer_id customer @ ''-'' @ today clk,
        with_baseline customer (create_post_incident_recovery_playbook clk customer)),
       (''ER-'' @ customer_id customer @ ''-'' @ today clk,
        with_baseline customer (create_engagement_revival_playbook clk customer))]"
    using assms(3)
    by (simp add: s3_def ensure_playbook_def has_active_playbook_def trigger_engagement_revival
        a2 a1)
  have a4: "active_playbooks s4 = active_playbooks s3"
    by (simp add: s4_def)
  have g: "guarded_triggers clk customer new_health self = s4"
    by (simp add: guarded_triggers_def s4_def s3_def s2_def s1_def)
  have "active_playbooks
      (snd (check_playbook_triggers clk customer previous_health new_health self))
      = active_playbooks s4"
    by (cases previous_health)
       (simp_all add: check_playbook_triggers_alt g escalate_to_executive_def)
  then show ?thesis
    by (simp add: count_active_def a4 a3)
qed

text \<open>The first customer of the demonstration at sub-scores of 40.\<close>

theorem first_evaluation_triggers_both_witness:
  "count_active
     (snd (check_playbook_triggers sample_clock (enterprise_customer sample_clock) None
             (metrics_at 40) engine_init))
     ''CUST-001'' POST_INCIDENT_RECOVERY = 1
   \<and> count_active
     (snd (check_playbook_triggers sample_clock (enterprise_customer sample_clock) None
             (metrics_at 40) engine_init))
     ''CUST-001'' ENGAGEMENT_REVIVAL = 1"
  using first_evaluation_triggers_both
    [of "enterprise_customer sample_clock" "metrics_at 40" engine_init sample_clock None]
  by (simp add: enterprise_customer_def metrics_at_def engine_init_def)

end
